theory Spec2Isabelle
  imports Main "HOL-Library.Option_ord"
begin

section \<open>Shared value types\<close>

text \<open>
  A JavaScript \<^verbatim>\<open>Date\<close> is represented by the local calendar year and month it
  denotes (what \<^verbatim>\<open>getFullYear()\<close> and \<^verbatim>\<open>getMonth()\<close> return; months run
  from 0 to 11) together with its epoch milliseconds. Byte sizes and counters are
  JavaScript Numbers holding integers; they are represented by \<^typ>\<open>int\<close>.
  A Mongo ObjectId is represented by a natural number.
\<close>

datatype date = Date (getFullYear: int) (getMonth: nat) (getTime: int)

type_synonym objectId = nat

section \<open>Tenant ledger: \<^verbatim>\<open>src/models/Application.js\<close>\<close>

record limits =
  maxFileSize :: int
  maxImagesPerMonth :: int
  maxStorageSize :: int

record usage =
  totalImages :: int
  totalStorageUsed :: int
  currentMonthUploads :: int
  lastResetDate :: date

record settings =
  enablePublicAccess :: bool
  enableImageOptimization :: bool
  defaultImageQuality :: int
  allowedFormats :: "string list"

record refreshToken =
  rt_token :: string
  rt_createdAt :: date

text \<open>
  The document of one tenant: the paths of the schema and the two timestamps that
  \<^verbatim>\<open>timestamps: true\<close> adds. \<open>isNew\<close> is Mongoose's flag of a document that has
  not been written yet, and \<open>plainSecret\<close> is the property \<^verbatim>\<open>_plainSecret\<close> that the
  pre-save hook puts on the document object: it is no path of the schema.
\<close>

record application =
  app_id :: objectId
  name :: string
  description :: "string option"
  domain :: string
  allowedOrigins :: "string list"
  apiKey :: "string option"
  apiSecret :: "string option"
  isActive :: bool
  plan :: string
  limits :: limits
  usage :: usage
  settings :: settings
  refreshTokens :: "refreshToken list"
  app_createdAt :: date
  app_updatedAt :: date
  isNew :: bool
  plainSecret :: "string option"

text \<open>The defaults the schema declares for a tenant's limits and usage.\<close>

definition defaultLimits :: limits where
  "defaultLimits = \<lparr>maxFileSize = 5242880, maxImagesPerMonth = 1000, maxStorageSize = 1073741824\<rparr>"

definition defaultUsage :: "date \<Rightarrow> usage" where
  "defaultUsage now =
     \<lparr>totalImages = 0, totalStorageUsed = 0, currentMonthUploads = 0, lastResetDate = now\<rparr>"

definition defaultSettings :: settings where
  "defaultSettings =
     \<lparr>enablePublicAccess = True, enableImageOptimization = True, defaultImageQuality = 85,
      allowedFormats = [''jpeg'', ''png'', ''webp'']\<rparr>"

text \<open>
  \<^verbatim>\<open>new Application({name, domain})\<close>: every other path takes the default of the
  schema; \<open>now\<close> is \<^verbatim>\<open>Date.now\<close> at construction.
\<close>

definition newApplication :: "objectId \<Rightarrow> string \<Rightarrow> string \<Rightarrow> date \<Rightarrow> application" where
  "newApplication i nm dm now =
     \<lparr>app_id = i, name = nm, description = None, domain = dm, allowedOrigins = [],
      apiKey = None, apiSecret = None, isActive = True, plan = ''free'',
      limits = defaultLimits, usage = defaultUsage now, settings = defaultSettings,
      refreshTokens = [], app_createdAt = now, app_updatedAt = now,
      isNew = True, plainSecret = None\<rparr>"

text \<open>
  \<^verbatim>\<open>resetMonthlyUsage\<close>: \<open>now\<close> is the value of \<^verbatim>\<open>new Date()\<close> at the call.
\<close>

definition resetMonthlyUsage :: "date \<Rightarrow> application \<Rightarrow> application" where
  "resetMonthlyUsage now this =
     (let lastReset = lastResetDate (usage this) in
      if getMonth now \<noteq> getMonth lastReset \<or> getFullYear now \<noteq> getFullYear lastReset
      then this\<lparr>usage := (usage this)\<lparr>currentMonthUploads := 0, lastResetDate := now\<rparr>\<rparr>
      else this)"

record reasons =
  monthlyLimit :: bool
  storageLimit :: bool
  fileSizeLimit :: bool

record remaining =
  monthlyRemaining :: int
  storageRemaining :: int
  rem_maxFileSize :: int

record canUploadResult =
  allowed :: bool
  reasons :: reasons
  cu_limits :: remaining

text \<open>
  \<^verbatim>\<open>canUpload(fileSize = 0)\<close> changes the document it is called on (through
  \<^verbatim>\<open>resetMonthlyUsage\<close>) and returns the decision; the model returns both. Every
  caller passes the size, so the default argument is not represented.
\<close>

definition canUpload :: "date \<Rightarrow> application \<Rightarrow> int \<Rightarrow> canUploadResult \<times> application" where
  "canUpload now this0 fileSize =
     (let this = resetMonthlyUsage now this0;
          withinMonthlyLimit = currentMonthUploads (usage this) < maxImagesPerMonth (limits this);
          withinStorageLimit = totalStorageUsed (usage this) + fileSize \<le> maxStorageSize (limits this);
          withinFileSizeLimit = fileSize \<le> maxFileSize (limits this)
      in (\<lparr>allowed = withinMonthlyLimit \<and> withinStorageLimit \<and> withinFileSizeLimit,
           reasons = \<lparr>monthlyLimit = withinMonthlyLimit,
                      storageLimit = withinStorageLimit,
                      fileSizeLimit = withinFileSizeLimit\<rparr>,
           cu_limits = \<lparr>monthlyRemaining = maxImagesPerMonth (limits this) - currentMonthUploads (usage this),
                        storageRemaining = maxStorageSize (limits this) - totalStorageUsed (usage this),
                        rem_maxFileSize = maxFileSize (limits this)\<rparr>\<rparr>,
          this))"

text \<open>
  \<^verbatim>\<open>recordUpload(fileSize)\<close> increments the three counters and saves the document;
  the model returns the document that is written.
\<close>

definition recordUpload :: "application \<Rightarrow> int \<Rightarrow> application" where
  "recordUpload this fileSize =
     this\<lparr>usage := (usage this)
       \<lparr>totalImages := totalImages (usage this) + 1,
        totalStorageUsed := totalStorageUsed (usage this) + fileSize,
        currentMonthUploads := currentMonthUploads (usage this) + 1\<rparr>\<rparr>"

section \<open>Tenant credentials and serialization: \<^verbatim>\<open>src/models/Application.js\<close>\<close>

text \<open>
  The random values that the creation of a tenant draws: the hex strings of
  \<^verbatim>\<open>crypto.randomBytes(16)\<close> and \<^verbatim>\<open>crypto.randomBytes(32)\<close>, and the salt of
  \<^verbatim>\<open>bcrypt.genSalt(12)\<close>.
\<close>

record randomness =
  rnd_key :: string
  rnd_secret :: string
  rnd_salt :: string

text \<open>
  \<^verbatim>\<open>applicationSchema.pre('save')\<close>. The function \<^verbatim>\<open>bcrypt.hash\<close> is a parameter:
  \<open>hash plaintext salt\<close> is the stored hash.
\<close>

definition applicationPreSave ::
    "(string \<Rightarrow> string \<Rightarrow> string) \<Rightarrow> randomness \<Rightarrow> application \<Rightarrow> application" where
  "applicationPreSave hash rnd this =
     (if isNew this
      then this\<lparr>apiKey := Some (''ak_'' @ rnd_key rnd),
                apiSecret := Some (hash (rnd_secret rnd) (rnd_salt rnd)),
                plainSecret := Some (rnd_secret rnd)\<rparr>
      else this)"

text \<open>A JSON value, and an object as the list of its properties in order.\<close>

datatype json =
    JBool bool
  | JNum int
  | JStr string
  | JDate date
  | JArr "json list"
  | JObj "(string \<times> json) list"

text \<open>A property that is present only when the path has a value.\<close>

definition optional :: "string \<Rightarrow> 'a option \<Rightarrow> ('a \<Rightarrow> json) \<Rightarrow> (string \<times> json) list" where
  "optional k v f = (case v of None \<Rightarrow> [] | Some x \<Rightarrow> [(k, f x)])"

text \<open>
  \<^verbatim>\<open>toObject()\<close>: the paths of the schema with their values (the version key is left
  out). \<^verbatim>\<open>_plainSecret\<close> is no path, so it is no property of the object.
\<close>

definition toObject :: "application \<Rightarrow> (string \<times> json) list" where
  "toObject this =
     [(''_id'', JNum (int (app_id this))), (''name'', JStr (name this))]
     @ optional ''description'' (description this) JStr
     @ [(''domain'', JStr (domain this)),
        (''allowedOrigins'', JArr (map JStr (allowedOrigins this)))]
     @ optional ''apiKey'' (apiKey this) JStr
     @ optional ''apiSecret'' (apiSecret this) JStr
     @ [(''isActive'', JBool (isActive this)),
        (''plan'', JStr (plan this)),
        (''limits'', JObj [(''maxFileSize'', JNum (maxFileSize (limits this))),
                           (''maxImagesPerMonth'', JNum (maxImagesPerMonth (limits this))),
                           (''maxStorageSize'', JNum (maxStorageSize (limits this)))]),
        (''usage'', JObj [(''totalImages'', JNum (totalImages (usage this))),
                          (''totalStorageUsed'', JNum (totalStorageUsed (usage this))),
                          (''currentMonthUploads'', JNum (currentMonthUploads (usage this))),
                          (''lastResetDate'', JDate (lastResetDate (usage this)))]),
        (''settings'', JObj [(''enablePublicAccess'', JBool (enablePublicAccess (settings this))),
                             (''enableImageOptimization'', JBool (enableImageOptimization (settings this))),
                             (''defaultImageQuality'', JNum (defaultImageQuality (settings this))),
                             (''allowedFormats'', JArr (map JStr (allowedFormats (settings this))))]),
        (''refreshTokens'', JArr (map (\<lambda>t. JObj [(''token'', JStr (rt_token t)),
                                                  (''createdAt'', JDate (rt_createdAt t))])
                                     (refreshTokens this))),
        (''createdAt'', JDate (app_createdAt this)),
        (''updatedAt'', JDate (app_updatedAt this))]"

text \<open>\<^verbatim>\<open>delete obj.key\<close>, and \<^verbatim>\<open>toJSON\<close>.\<close>

definition deleteKey :: "string \<Rightarrow> (string \<times> json) list \<Rightarrow> (string \<times> json) list" where
  "deleteKey k obj = filter (\<lambda>kv. fst kv \<noteq> k) obj"

definition toJSON :: "application \<Rightarrow> (string \<times> json) list" where
  "toJSON this = deleteKey ''refreshTokens'' (deleteKey ''apiSecret'' (toObject this))"

section \<open>Asset catalogue: \<^verbatim>\<open>src/models/Image.js\<close>\<close>

text \<open>
  One entry of the variant manifest; a property that the code leaves out of the object is
  \<open>None\<close>. The manifest is a JavaScript object: an association list in insertion order.
\<close>

record variant =
  v_path :: "string option"
  v_s3Key :: "string option"
  v_url :: "string option"
  v_size :: "int option"
  v_width :: "int option"
  v_height :: "int option"
  v_format :: "string option"

type_synonym variants = "(string \<times> variant) list"

record version =
  ver_filename :: string
  ver_path :: string
  ver_s3Key :: "string option"
  ver_variants :: "variants option"
  ver_createdAt :: date

record metadata =
  md_width :: "int option"
  md_height :: "int option"
  md_format :: "string option"
  md_hasAlpha :: "bool option"

text \<open>
  The document of one asset, path by path as the schema declares it (\<open>byteSize\<close> is the
  path \<^verbatim>\<open>size\<close>), with the two timestamps that \<^verbatim>\<open>timestamps: true\<close> adds.
\<close>

record image =
  imageId :: string
  originalName :: string
  filename :: string
  mimetype :: string
  byteSize :: int
  path :: string
  url :: "string option"
  s3Key :: "string option"
  application :: objectId
  entityId :: "string option"
  entityType :: "string option"
  productId :: "string option"
  category :: string
  tags :: "string list"
  alt :: string
  title :: string
  isPublic :: bool
  isDeleted :: bool
  deletedAt :: "date option"
  versions :: "version list"
  variants :: variants
  metadata :: metadata
  accessCount :: int
  lastAccessedAt :: "date option"
  createdAt :: date
  updatedAt :: date

text \<open>JavaScript truthiness of an optional string: present and not empty.\<close>

definition truthy :: "string option \<Rightarrow> bool" where
  "truthy s = (case s of None \<Rightarrow> False | Some v \<Rightarrow> v \<noteq> [])"

text \<open>\<^verbatim>\<open>imageSchema.pre('save')\<close>: the hook that marks product images public.\<close>

definition preSave :: "image \<Rightarrow> image" where
  "preSave this =
     (if entityType this = Some ''product''
         \<or> category this = ''product''
         \<or> truthy (productId this)
         \<or> category this = ''electronics''
         \<or> category this = ''clothing''
         \<or> category this = ''accessories''
      then this\<lparr>isPublic := True\<rparr>
      else this)"

text \<open>
  The validators the schema declares: the required string paths must not be empty and
  \<open>mimetype\<close> must be in its enum. Mongoose runs them before the pre-save hook.
\<close>

definition mimetypeEnum :: "string list" where
  "mimetypeEnum = [''image/jpeg'', ''image/jpg'', ''image/png'', ''image/webp'']"

definition validateImage :: "image \<Rightarrow> bool" where
  "validateImage this =
     (imageId this \<noteq> [] \<and> originalName this \<noteq> [] \<and> filename this \<noteq> []
      \<and> mimetype this \<in> set mimetypeEnum \<and> path this \<noteq> [])"

text \<open>
  The catalogue is the list of stored documents; a document is known by its position,
  which stands for its \<^verbatim>\<open>_id\<close>. \<^verbatim>\<open>Image.findOne(query)\<close> gives the position of
  the first document that matches.
\<close>

fun findOne :: "(image \<Rightarrow> bool) \<Rightarrow> image list \<Rightarrow> nat option" where
  "findOne q [] = None"
| "findOne q (d # ds) = (if q d then Some 0 else map_option Suc (findOne q ds))"

text \<open>
  \<^verbatim>\<open>doc.save()\<close> on a loaded document: validation, the pre-save hook, the write, with
  \<^verbatim>\<open>updatedAt\<close> set. \<open>None\<close> is a rejected save (the promise rejects and the
  controller's \<^verbatim>\<open>catch\<close> answers 500).
\<close>

definition saveAt :: "date \<Rightarrow> nat \<Rightarrow> image \<Rightarrow> image list \<Rightarrow> (image \<times> image list) option" where
  "saveAt now k doc docs =
     (if validateImage doc
      then (let written = (preSave doc)\<lparr>updatedAt := now\<rparr> in Some (written, docs[k := written]))
      else None)"

text \<open>
  \<^verbatim>\<open>new Image(data).save()\<close>: as above, and the unique index on \<^verbatim>\<open>imageId\<close>
  rejects a document whose id is already stored.
\<close>

definition saveNew :: "date \<Rightarrow> image \<Rightarrow> image list \<Rightarrow> (image \<times> image list) option" where
  "saveNew now doc docs =
     (if validateImage doc \<and> imageId doc \<notin> imageId ` set docs
      then (let written = (preSave doc)\<lparr>createdAt := now, updatedAt := now\<rparr>
            in Some (written, docs @ [written]))
      else None)"

text \<open>\<^verbatim>\<open>softDelete\<close> and \<^verbatim>\<open>recordAccess\<close>: the assignments, before the save.\<close>

definition softDelete :: "date \<Rightarrow> image \<Rightarrow> image" where
  "softDelete now this = this\<lparr>isDeleted := True, deletedAt := Some now\<rparr>"

definition recordAccess :: "date \<Rightarrow> image \<Rightarrow> image" where
  "recordAccess now this = this\<lparr>accessCount := accessCount this + 1, lastAccessedAt := Some now\<rparr>"

section \<open>Signed tokens and the environment\<close>

text \<open>
  A token made by \<^verbatim>\<open>jwt.sign\<close> is represented by the key it was signed with, its
  payload and its expiry (seconds since the epoch); any other non-empty string is
  \<open>Malformed\<close>. \<^verbatim>\<open>jwt.verify\<close> throws (\<open>None\<close>) on a wrong key, on an
  expired token and on a malformed one, and returns the payload otherwise. The payload
  holds the properties the code reads; one that is not in the payload is \<open>None\<close>.
\<close>

record claims =
  c_type :: "string option"
  c_id :: "objectId option"
  c_imageId :: "string option"
  c_applicationId :: "objectId option"

datatype jwt = Jwt string claims int | Malformed string

definition jwt_sign :: "string \<Rightarrow> date \<Rightarrow> claims \<Rightarrow> int \<Rightarrow> jwt" where
  "jwt_sign secret now payload expiresIn = Jwt secret payload (getTime now div 1000 + expiresIn)"

definition jwt_verify :: "string \<Rightarrow> date \<Rightarrow> jwt \<Rightarrow> claims option" where
  "jwt_verify secret now token =
     (case token of
        Jwt k payload exp \<Rightarrow> if k = secret \<and> getTime now div 1000 < exp then Some payload else None
      | Malformed _ \<Rightarrow> None)"

text \<open>The payload of a per-image access token, and its signing with one hour of life.\<close>

definition imageClaims :: "string \<Rightarrow> objectId \<Rightarrow> claims" where
  "imageClaims i a = \<lparr>c_type = None, c_id = None, c_imageId = Some i, c_applicationId = Some a\<rparr>"

text \<open>
  What a request handler reads from outside the request: the clock, the process
  environment, the values of \<^verbatim>\<open>uuidv4()\<close> (\<open>uuidv4 e n\<close> is the value of the
  \<open>n\<close>-th call in the request), the \<^verbatim>\<open>path\<close> functions, the file system, S3, the
  image library, the order of strings in a sort and the regular expressions of a search.
  \<open>sharpEncode input sizeName\<close> is the outcome of resizing and encoding one variant:
  byte size, width and height, or \<open>None\<close> when \<^verbatim>\<open>sharp\<close> throws. The
  message of an error that a library throws is not modelled: a fixed text stands for it.
\<close>

record env =
  clock :: date
  STORAGE_TYPE :: "string option"
  UPLOAD_DIR :: "string option"
  JWT_SECRET :: string
  uuidv4 :: "nat \<Rightarrow> string"
  joinPath :: "string list \<Rightarrow> string"
  relativePath :: "string \<Rightarrow> string"
  resolvePath :: "string \<Rightarrow> string"
  fileReadable :: "string \<Rightarrow> bool"
  mkdirOk :: bool
  s3GetObjectOk :: bool
  s3Upload :: "string \<Rightarrow> string option"
  sharpEncode :: "string \<Rightarrow> string \<Rightarrow> (int \<times> int \<times> int) option"
  collation :: "string \<Rightarrow> int"
  regexCompiles :: "string \<Rightarrow> bool"
  regexMatches :: "string \<Rightarrow> string \<Rightarrow> bool"

text \<open>
  A response: \<^verbatim>\<open>res.status(n).json({success: false, error})\<close>, the 413 answer with
  its details and remaining budget, or a successful answer with its status and payload.
\<close>

datatype limitError = MonthlyLimitExceeded int | StorageLimitExceeded int | FileSizeLimitExceeded int

datatype 'd response =
    Failure nat string
  | QuotaFailure nat string "limitError list" remaining
  | Success nat 'd

fun status :: "'d response \<Rightarrow> nat" where
  "status (Failure n _) = n"
| "status (QuotaFailure n _ _ _) = n"
| "status (Success n _) = n"

section \<open>Bearer authentication of a tenant: \<^verbatim>\<open>middleware/auth.js\<close>\<close>

record reqApplication =
  ra_id :: objectId
  ra_name :: string
  ra_domain :: string
  ra_plan :: string
  ra_limits :: limits
  ra_settings :: settings

definition toReqApplication :: "application \<Rightarrow> reqApplication" where
  "toReqApplication a =
     \<lparr>ra_id = app_id a, ra_name = name a, ra_domain = domain a, ra_plan = plan a,
      ra_limits = limits a, ra_settings = settings a\<rparr>"

text \<open>
  A read request: \<^verbatim>\<open>req.params.imageId\<close>, \<^verbatim>\<open>req.query.token\<close> (\<open>None\<close> when
  absent or empty), \<^verbatim>\<open>req.query.size\<close>, and the two properties that authentication
  middleware may set, \<^verbatim>\<open>req.application\<close> and \<^verbatim>\<open>req.userId\<close>.
\<close>

record readReq =
  p_imageId :: string
  q_token :: "jwt option"
  q_size :: "string option"
  r_application :: "reqApplication option"
  r_userId :: "objectId option"

text \<open>
  \<^verbatim>\<open>optionalApplicationAuth\<close>; \<open>bearer\<close> is the token of the Authorization
  header, \<open>None\<close> when there is none. It sets \<^verbatim>\<open>req.application\<close> and nothing else.
\<close>

definition optionalApplicationAuth ::
    "env \<Rightarrow> (objectId \<rightharpoonup> application) \<Rightarrow> jwt option \<Rightarrow> readReq \<Rightarrow> readReq" where
  "optionalApplicationAuth e apps bearer req =
     (case bearer of
        None \<Rightarrow> req
      | Some token \<Rightarrow>
          (case jwt_verify (JWT_SECRET e) (clock e) token of
             None \<Rightarrow> req
           | Some decoded \<Rightarrow>
               if c_type decoded = Some ''application''
               then (case Option.bind (c_id decoded) apps of
                       None \<Rightarrow> req
                     | Some app \<Rightarrow>
                         if isActive app
                         then req\<lparr>r_application := Some (toReqApplication app)\<rparr>
                         else req)
               else req))"

text \<open>
  The request as the route \<^verbatim>\<open>GET /:imageId\<close> and \<^verbatim>\<open>GET /:imageId/info\<close> hand it
  to the controller: built from the URL, then passed through
  \<^verbatim>\<open>optionalApplicationAuth\<close>, the only authentication middleware on these routes.
\<close>

definition readRequest ::
    "env \<Rightarrow> (objectId \<rightharpoonup> application) \<Rightarrow> jwt option \<Rightarrow> string \<Rightarrow> jwt option \<Rightarrow> string option \<Rightarrow> readReq" where
  "readRequest e apps bearer i token sz =
     optionalApplicationAuth e apps bearer
       \<lparr>p_imageId = i, q_token = token, q_size = sz, r_application = None, r_userId = None\<rparr>"

section \<open>Reads: \<^verbatim>\<open>getImage\<close> and \<^verbatim>\<open>getImageInfo\<close> of the image controller\<close>

text \<open>
  \<^verbatim>\<open>image.owner\<close>: the Image schema declares no path \<^verbatim>\<open>owner\<close>, so the read
  gives \<^verbatim>\<open>undefined\<close> on every document.
\<close>

definition owner :: "image \<Rightarrow> objectId option" where
  "owner this = None"

text \<open>The query of both reads: the id of the request, not soft-deleted.\<close>

definition liveWithId :: "string \<Rightarrow> image \<Rightarrow> bool" where
  "liveWithId i d = (imageId d = i \<and> \<not> isDeleted d)"

text \<open>
  The access decision of \<^verbatim>\<open>getImage\<close> for a document that was found: \<open>Deny\<close> is
  an early \<^verbatim>\<open>return res.status(n).json(...)\<close>. Calling \<^verbatim>\<open>toString\<close> on the
  undefined \<^verbatim>\<open>image.owner\<close> throws a TypeError, which the outer \<^verbatim>\<open>catch\<close>
  answers with 500.
\<close>

datatype decision = Deny nat string | Grant

definition getImage_access :: "env \<Rightarrow> readReq \<Rightarrow> image \<Rightarrow> decision" where
  "getImage_access e req img =
     (if isPublic img then Grant
      else case q_token req of
        Some token \<Rightarrow>
          (case jwt_verify (JWT_SECRET e) (clock e) token of
             None \<Rightarrow> Deny 401 ''Invalid or expired access token''
           | Some decoded \<Rightarrow>
               if c_imageId decoded \<noteq> Some (p_imageId req)
               then Deny 403 ''Invalid access token for this image''
               else Grant)
      | None \<Rightarrow>
          (case r_userId req of
             None \<Rightarrow> Deny 401 ''Access token required or authenticate to access image''
           | Some u \<Rightarrow>
               (case owner img of
                  None \<Rightarrow> Deny 500 ''Failed to retrieve image''
                | Some ow \<Rightarrow> if u \<noteq> ow then Deny 403 ''Access denied'' else Grant)))"

text \<open>
  What is served: a redirect to a signed S3 URL for a key, or a file with its content
  type. The variant is looked up among the manifest's own keys.
\<close>

datatype served = Redirected string | SentFile string string

definition serveImage :: "env \<Rightarrow> string \<Rightarrow> image \<Rightarrow> served response" where
  "serveImage e sz img =
     (let (targetPath, targetS3Key, mime) =
            (case (if sz \<noteq> ''original'' then map_of (variants img) sz else None) of
               Some v \<Rightarrow> (v_path v, v_s3Key v, ''image/webp'')
             | None \<Rightarrow> (Some (path img), s3Key img, mimetype img))
      in if STORAGE_TYPE e = Some ''s3''
         then (case targetS3Key of
                 None \<Rightarrow> Failure 500 ''Failed to retrieve image''
               | Some k \<Rightarrow> Success 302 (Redirected k))
         else (case targetPath of
                 None \<Rightarrow> Failure 500 ''Failed to retrieve image''
               | Some p \<Rightarrow>
                   if fileReadable e (resolvePath e p)
                   then Success 200 (SentFile (resolvePath e p) mime)
                   else Failure 404 ''Image file not found on storage''))"

definition getImage :: "env \<Rightarrow> image list \<Rightarrow> readReq \<Rightarrow> served response \<times> image list" where
  "getImage e docs req =
     (case findOne (liveWithId (p_imageId req)) docs of
        None \<Rightarrow> (Failure 404 ''Image not found'', docs)
      | Some k \<Rightarrow>
          (case getImage_access e req (docs ! k) of
             Deny n msg \<Rightarrow> (Failure n msg, docs)
           | Grant \<Rightarrow>
               (case saveAt (clock e) k (recordAccess (clock e) (docs ! k)) docs of
                  None \<Rightarrow> (Failure 500 ''Failed to retrieve image'', docs)
                | Some (img, docs') \<Rightarrow>
                    (serveImage e (case q_size req of None \<Rightarrow> ''original'' | Some s \<Rightarrow> s) img, docs'))))"

text \<open>
  \<^verbatim>\<open>getImageInfo\<close>. Its access decision gives, when access is granted, the token
  that is minted for an authenticated owner (\<open>None\<close> otherwise).
\<close>

datatype infoDecision = InfoDeny nat string | InfoGrant "jwt option"

definition getImageInfo_access :: "env \<Rightarrow> readReq \<Rightarrow> image \<Rightarrow> infoDecision" where
  "getImageInfo_access e req img =
     (if isPublic img then InfoGrant None
      else case q_token req of
        Some token \<Rightarrow>
          (case jwt_verify (JWT_SECRET e) (clock e) token of
             None \<Rightarrow> InfoDeny 401 ''Invalid or expired access token''
           | Some decoded \<Rightarrow>
               if c_imageId decoded = Some (p_imageId req)
               then InfoGrant None
               else InfoDeny 403 ''Access denied. Authentication required for private images.'')
      | None \<Rightarrow>
          (case r_application req of
             Some ra \<Rightarrow>
               if application img = ra_id ra
               then InfoGrant (Some (jwt_sign (JWT_SECRET e) (clock e)
                                       (imageClaims (imageId img) (ra_id ra)) 3600))
               else InfoDeny 403 ''Access denied. Authentication required for private images.''
           | None \<Rightarrow> InfoDeny 403 ''Access denied. Authentication required for private images.''))"

record variantInfo =
  vi_width :: "int option"
  vi_height :: "int option"
  vi_size :: "int option"
  vi_format :: "string option"

definition variantInfoOf :: "image \<Rightarrow> string \<times> variant \<Rightarrow> string \<times> variantInfo" where
  "variantInfoOf img = (\<lambda>(sizeName, v).
     (sizeName,
      \<lparr>vi_width = v_width v, vi_height = v_height v, vi_size = v_size v,
       vi_format = (case v_format v of
                      Some f \<Rightarrow> Some f
                    | None \<Rightarrow> if sizeName = ''original'' then md_format (metadata img) else Some ''webp'')\<rparr>))"

text \<open>
  The payload of the answer, field by field; \<open>info_tokenParam\<close> is the token that the
  URLs of a private asset carry.
\<close>

record infoData =
  info_imageId :: string
  info_originalName :: string
  info_filename :: string
  info_size :: int
  info_mimetype :: string
  info_isPublic :: bool
  info_metadata :: metadata
  info_variants :: "(string \<times> variantInfo) list"
  info_category :: string
  info_tags :: "string list"
  info_alt :: string
  info_title :: string
  info_entityId :: "string option"
  info_entityType :: "string option"
  info_productId :: "string option"
  info_accessCount :: int
  info_lastAccessedAt :: "date option"
  info_tokenParam :: "jwt option"
  info_accessToken :: "jwt option"

definition infoResponse :: "readReq \<Rightarrow> jwt option \<Rightarrow> image \<Rightarrow> infoData" where
  "infoResponse req accessToken img =
     \<lparr>info_imageId = imageId img, info_originalName = originalName img,
      info_filename = filename img, info_size = byteSize img, info_mimetype = mimetype img,
      info_isPublic = isPublic img, info_metadata = metadata img,
      info_variants = map (variantInfoOf img) (variants img),
      info_category = category img, info_tags = tags img, info_alt = alt img,
      info_title = (if title img \<noteq> [] then title img else originalName img),
      info_entityId = entityId img, info_entityType = entityType img,
      info_productId = productId img, info_accessCount = accessCount img,
      info_lastAccessedAt = lastAccessedAt img,
      info_tokenParam = (if isPublic img then None
                         else case accessToken of Some t \<Rightarrow> Some t | None \<Rightarrow> q_token req),
      info_accessToken = accessToken\<rparr>"

definition getImageInfo :: "env \<Rightarrow> image list \<Rightarrow> readReq \<Rightarrow> infoData response \<times> image list" where
  "getImageInfo e docs req =
     (case findOne (liveWithId (p_imageId req)) docs of
        None \<Rightarrow> (Failure 404 ''Image not found'', docs)
      | Some k \<Rightarrow>
          (case getImageInfo_access e req (docs ! k) of
             InfoDeny n msg \<Rightarrow> (Failure n msg, docs)
           | InfoGrant accessToken \<Rightarrow>
               (case saveAt (clock e) k (recordAccess (clock e) (docs ! k)) docs of
                  None \<Rightarrow> (Failure 500 ''Failed to retrieve image information'', docs)
                | Some (img, docs') \<Rightarrow> (Success 200 (infoResponse req accessToken img), docs'))))"

section \<open>Variant generation\<close>

definition IMAGE_SIZES :: "(string \<times> (nat \<times> nat) option) list" where
  "IMAGE_SIZES =
     [(''thumbnail'', Some (150, 150)), (''small'', Some (300, 300)),
      (''medium'', Some (600, 600)), (''large'', Some (1200, 1200)), (''original'', None)]"

text \<open>\<^verbatim>\<open>obj[key] = value\<close> on an object kept in insertion order.\<close>

fun setKey :: "string \<Rightarrow> 'v \<Rightarrow> (string \<times> 'v) list \<Rightarrow> (string \<times> 'v) list" where
  "setKey k v [] = [(k, v)]"
| "setKey k v ((k', v') # kvs) = (if k = k' then (k, v) # kvs else (k', v') # setKey k v kvs)"

definition noVariant :: variant where
  "noVariant = \<lparr>v_path = None, v_s3Key = None, v_url = None, v_size = None,
                 v_width = None, v_height = None, v_format = None\<rparr>"

text \<open>
  \<^verbatim>\<open>generateImageVariants\<close>: the loop over \<^verbatim>\<open>IMAGE_SIZES\<close>, and the function.
  \<open>Inl\<close> is a thrown error; the variants built before it are lost with it.
\<close>

fun localVariantsLoop ::
    "env \<Rightarrow> string \<Rightarrow> string \<Rightarrow> (string \<times> (nat \<times> nat) option) list \<Rightarrow> variants \<Rightarrow> string + variants" where
  "localVariantsLoop e inputPath variantsDir [] acc = Inr acc"
| "localVariantsLoop e inputPath variantsDir ((sizeName, dimensions) # rest) acc =
     (if sizeName = ''original''
      then localVariantsLoop e inputPath variantsDir rest
             (setKey sizeName (noVariant\<lparr>v_path := Some inputPath\<rparr>) acc)
      else (case sharpEncode e inputPath sizeName of
              None \<Rightarrow> Inl ''sharp: processing failed''
            | Some (sz, w, h) \<Rightarrow>
                localVariantsLoop e inputPath variantsDir rest
                  (setKey sizeName
                     (noVariant\<lparr>v_path := Some (relativePath e (joinPath e [variantsDir, sizeName @ ''.webp''])),
                                v_size := Some sz, v_width := Some w, v_height := Some h,
                                v_format := Some ''webp''\<rparr>) acc)))"

definition baseDir :: "env \<Rightarrow> string" where
  "baseDir e = (case UPLOAD_DIR e of None \<Rightarrow> ''./uploads'' | Some d \<Rightarrow> if d = [] then ''./uploads'' else d)"

definition generateImageVariants :: "env \<Rightarrow> string \<Rightarrow> string \<Rightarrow> string + variants" where
  "generateImageVariants e inputPath imgId =
     (if mkdirOk e
      then localVariantsLoop e inputPath (joinPath e [baseDir e, ''variants'', imgId]) IMAGE_SIZES []
      else Inl ''mkdir failed'')"

text \<open>\<^verbatim>\<open>generateS3ImageVariants\<close>, in the same way.\<close>

fun s3VariantsLoop ::
    "env \<Rightarrow> string \<Rightarrow> string \<Rightarrow> (string \<times> (nat \<times> nat) option) list \<Rightarrow> variants \<Rightarrow> string + variants" where
  "s3VariantsLoop e key imgId [] acc = Inr acc"
| "s3VariantsLoop e key imgId ((sizeName, dimensions) # rest) acc =
     (if sizeName = ''original''
      then s3VariantsLoop e key imgId rest (setKey sizeName (noVariant\<lparr>v_s3Key := Some key\<rparr>) acc)
      else (case sharpEncode e key sizeName of
              None \<Rightarrow> Inl ''sharp: processing failed''
            | Some (sz, w, h) \<Rightarrow>
                (case s3Upload e (''variants/'' @ imgId @ ''/'' @ sizeName @ ''.webp'') of
                   None \<Rightarrow> Inl ''S3 upload failed''
                 | Some location \<Rightarrow>
                     s3VariantsLoop e key imgId rest
                       (setKey sizeName
                          (noVariant\<lparr>v_s3Key := Some (''variants/'' @ imgId @ ''/'' @ sizeName @ ''.webp''),
                                     v_url := Some location, v_size := Some sz, v_width := Some w,
                                     v_height := Some h, v_format := Some ''webp''\<rparr>) acc))))"

definition generateS3ImageVariants :: "env \<Rightarrow> string \<Rightarrow> string \<Rightarrow> string + variants" where
  "generateS3ImageVariants e key imgId =
     (if s3GetObjectOk e then s3VariantsLoop e key imgId IMAGE_SIZES [] else Inl ''S3 getObject failed'')"

section \<open>Uploaded files\<close>

record s3info =
  s3_location :: string
  s3_key :: string

text \<open>
  \<^verbatim>\<open>req.file\<close> as the upload middleware leaves it: \<open>f_path\<close> is set by disk storage,
  \<open>f_s3\<close> by the S3 upload.
\<close>

record uploadedFile =
  f_originalname :: string
  f_filename :: string
  f_mimetype :: string
  f_size :: int
  f_path :: "string option"
  f_s3 :: "s3info option"
  f_metadata :: "metadata option"

text \<open>
  The block \<^verbatim>\<open>let variants = {}; try { variants = await generate...(...) } catch { logger.warn(...) }\<close>
  shared by the three upload paths: the manifest, and whether a warning was logged.
  Reading \<^verbatim>\<open>file.s3.key\<close> or passing an undefined path throws inside the
  \<^verbatim>\<open>try\<close> as well.
\<close>

definition tryGenerateVariants :: "env \<Rightarrow> uploadedFile \<Rightarrow> string \<Rightarrow> variants \<times> bool" where
  "tryGenerateVariants e f imgId =
     (case (if STORAGE_TYPE e = Some ''s3''
            then (case f_s3 f of
                    None \<Rightarrow> Inl ''Cannot read properties of undefined''
                  | Some s \<Rightarrow> generateS3ImageVariants e (s3_key s) imgId)
            else (case f_path f of
                    None \<Rightarrow> Inl ''Input file is missing''
                  | Some p \<Rightarrow> generateImageVariants e p imgId)) of
        Inl variantError \<Rightarrow> ([], True)
      | Inr vs \<Rightarrow> (vs, False))"

text \<open>
  The storage-specific fields of a document: \<open>(path, s3Key, url)\<close>, or \<open>None\<close> when
  reading them throws a TypeError.
\<close>

definition storageFields :: "env \<Rightarrow> uploadedFile \<Rightarrow> (string \<times> string option \<times> string option) option" where
  "storageFields e f =
     (if STORAGE_TYPE e = Some ''s3''
      then (case f_s3 f of
              None \<Rightarrow> None
            | Some s \<Rightarrow> Some (s3_key s, Some (s3_key s), Some (s3_location s)))
      else (case f_path f of
              None \<Rightarrow> None
            | Some p \<Rightarrow> Some (relativePath e p, None, None)))"

section \<open>The ingestion pipeline: \<^verbatim>\<open>uploadImage\<close>\<close>

text \<open>
  The stored state: the image documents and the tenant documents.
  \<^verbatim>\<open>Application.findById\<close> gives a loaded document: it is not new and carries no
  \<^verbatim>\<open>_plainSecret\<close>, which is no path of the schema and is never written.
\<close>

record db =
  images :: "image list"
  apps :: "objectId \<rightharpoonup> application"

definition findById :: "(objectId \<rightharpoonup> application) \<Rightarrow> objectId \<Rightarrow> application option" where
  "findById m i = map_option (\<lambda>a. a\<lparr>isNew := False, plainSecret := None\<rparr>) (m i)"

text \<open>\<^verbatim>\<open>x || d\<close> on an optional string, and a field that is set only when truthy.\<close>

definition orElse :: "string option \<Rightarrow> string \<Rightarrow> string" where
  "orElse x d = (case x of None \<Rightarrow> d | Some v \<Rightarrow> if v = [] then d else v)"

definition ifTruthy :: "string option \<Rightarrow> string option" where
  "ifTruthy x = (if truthy x then x else None)"

text \<open>
  \<^verbatim>\<open>tags.split(',').map(tag => tag.trim()).filter(tag => tag)\<close>; the white space
  that \<open>trim\<close> removes is the ASCII white space.
\<close>

fun splitOn :: "char \<Rightarrow> string \<Rightarrow> string list" where
  "splitOn c [] = [] # []"
| "splitOn c (x # xs) =
     (if x = c then [] # splitOn c xs
      else (case splitOn c xs of [] \<Rightarrow> [x] # [] | w # ws \<Rightarrow> (x # w) # ws))"

definition isSpace :: "char \<Rightarrow> bool" where
  "isSpace c = (c \<in> {CHR '' '', CHR 0x09, CHR 0x0A, CHR 0x0B, CHR 0x0C, CHR 0x0D})"

definition trim :: "string \<Rightarrow> string" where
  "trim s = rev (dropWhile isSpace (rev (dropWhile isSpace s)))"

definition splitTags :: "string \<Rightarrow> string list" where
  "splitTags s = filter (\<lambda>tag. tag \<noteq> []) (map trim (splitOn CHR '','' s))"

record uploadBody =
  b_entityId :: "string option"
  b_entityType :: "string option"
  b_category :: "string option"
  b_tags :: "string option"
  b_alt :: "string option"
  b_title :: "string option"
  b_productId :: "string option"

record uploadReq =
  u_file :: "uploadedFile option"
  u_fileMetadata :: metadata
  u_application :: reqApplication
  u_body :: uploadBody

text \<open>A URL of the asset: \<^verbatim>\<open>/api/images/<id>\<close> with its optional query parameters.\<close>

record link =
  l_size :: "string option"
  l_token :: "jwt option"

definition sizeLinks :: "jwt option \<Rightarrow> (string \<times> link) list" where
  "sizeLinks tok =
     [(''thumbnail'', \<lparr>l_size = Some ''thumbnail'', l_token = tok\<rparr>),
      (''small'', \<lparr>l_size = Some ''small'', l_token = tok\<rparr>),
      (''medium'', \<lparr>l_size = Some ''medium'', l_token = tok\<rparr>),
      (''large'', \<lparr>l_size = Some ''large'', l_token = tok\<rparr>),
      (''original'', \<lparr>l_size = None, l_token = tok\<rparr>)]"

record uploadData =
  ud_imageId :: string
  ud_originalName :: string
  ud_filename :: string
  ud_size :: int
  ud_mimetype :: string
  ud_uploadedAt :: date
  ud_metadata :: metadata
  ud_variants :: variants
  ud_category :: string
  ud_tags :: "string list"
  ud_alt :: string
  ud_title :: string
  ud_isPublic :: bool
  ud_accessUrl :: link
  ud_accessToken :: jwt
  ud_urls :: "(string \<times> link) list"
  ud_publicUrls :: "(string \<times> link) list option"

text \<open>\<^verbatim>\<open>Math.round(x / 1024 / 1024)\<close> on an integer number of bytes.\<close>

definition roundMB :: "int \<Rightarrow> int" where
  "roundMB x = (2 * x + 1048576) div 2097152"

text \<open>
  \<^verbatim>\<open>new Image(imageData)\<close> of the single upload: the fields of \<^verbatim>\<open>imageData\<close>,
  the schema's defaults for the others.
\<close>

definition uploadDocument ::
    "env \<Rightarrow> uploadReq \<Rightarrow> uploadedFile \<Rightarrow> string \<Rightarrow> variants \<Rightarrow> string \<times> string option \<times> string option \<Rightarrow> image" where
  "uploadDocument e req f imgId vs sf =
     (case sf of (pth, key, loc) \<Rightarrow>
      \<lparr>imageId = imgId, originalName = f_originalname f, filename = f_filename f,
       mimetype = f_mimetype f, byteSize = f_size f, path = pth, url = loc, s3Key = key,
       application = ra_id (u_application req),
       entityId = ifTruthy (b_entityId (u_body req)),
       entityType = ifTruthy (b_entityType (u_body req)),
       productId = ifTruthy (b_productId (u_body req)),
       category = orElse (b_category (u_body req)) ''uncategorized'',
       tags = (case b_tags (u_body req) of
                 None \<Rightarrow> []
               | Some t \<Rightarrow> if t = [] then [] else splitTags t),
       alt = orElse (b_alt (u_body req)) [],
       title = orElse (b_title (u_body req)) (f_originalname f),
       isPublic = False, isDeleted = False, deletedAt = None, versions = [],
       variants = vs, metadata = u_fileMetadata req, accessCount = 0,
       lastAccessedAt = None, createdAt = clock e, updatedAt = clock e\<rparr>)"

definition uploadAnswer :: "image \<Rightarrow> variants \<Rightarrow> jwt \<Rightarrow> uploadData" where
  "uploadAnswer img vs accessToken =
     \<lparr>ud_imageId = imageId img, ud_originalName = originalName img, ud_filename = filename img,
      ud_size = byteSize img, ud_mimetype = mimetype img, ud_uploadedAt = createdAt img,
      ud_metadata = metadata img, ud_variants = vs, ud_category = category img,
      ud_tags = tags img, ud_alt = alt img, ud_title = title img, ud_isPublic = isPublic img,
      ud_accessUrl = (if isPublic img then \<lparr>l_size = None, l_token = None\<rparr>
                      else \<lparr>l_size = None, l_token = Some accessToken\<rparr>),
      ud_accessToken = accessToken,
      ud_urls = sizeLinks (Some accessToken),
      ud_publicUrls = (if isPublic img then Some (sizeLinks None) else None)\<rparr>"

text \<open>
  \<^verbatim>\<open>uploadImage\<close>. The lookup of an existing image of the same entity only pushes
  onto the \<^verbatim>\<open>versions\<close> of a document object that is never saved, so it leaves no
  trace in the state or in the answer. A rejected save or a TypeError goes to the outer
  \<^verbatim>\<open>catch\<close>: 500. On the 413 answer the tenant document is not saved.
\<close>

definition uploadImage :: "env \<Rightarrow> db \<Rightarrow> uploadReq \<Rightarrow> uploadData response \<times> db" where
  "uploadImage e s req =
     (case u_file req of
        None \<Rightarrow> (Failure 400 ''No file uploaded'', s)
      | Some f \<Rightarrow>
          (case findById (apps s) (ra_id (u_application req)) of
             None \<Rightarrow> (Failure 404 ''Application not found'', s)
           | Some app0 \<Rightarrow>
               (case canUpload (clock e) app0 (f_size f) of (cu, app1) \<Rightarrow>
                  if \<not> allowed cu
                  then (QuotaFailure 413 ''Upload limits exceeded''
                          ((if \<not> monthlyLimit (reasons cu)
                            then [MonthlyLimitExceeded (maxImagesPerMonth (limits app1))] else [])
                           @ (if \<not> storageLimit (reasons cu)
                              then [StorageLimitExceeded (roundMB (maxStorageSize (limits app1)))] else [])
                           @ (if \<not> fileSizeLimit (reasons cu)
                              then [FileSizeLimitExceeded (roundMB (maxFileSize (limits app1)))] else []))
                          (cu_limits cu), s)
                  else
                    (case tryGenerateVariants e f (uuidv4 e 0) of (vs, warned) \<Rightarrow>
                       (case storageFields e f of
                          None \<Rightarrow> (Failure 500 ''Failed to upload image'', s)
                        | Some sf \<Rightarrow>
                            (case saveNew (clock e) (uploadDocument e req f (uuidv4 e 0) vs sf) (images s) of
                               None \<Rightarrow> (Failure 500 ''Failed to upload image'', s)
                             | Some (img, docs') \<Rightarrow>
                                 (Success 201
                                    (uploadAnswer img vs
                                       (jwt_sign (JWT_SECRET e) (clock e)
                                          (imageClaims (imageId img) (ra_id (u_application req))) 3600)),
                                  s\<lparr>images := docs',
                                    apps := (apps s)(ra_id (u_application req) \<mapsto>
                                              recordUpload app1 (f_size f))\<rparr>)))))))"

section \<open>\<^verbatim>\<open>bulkUploadImages\<close>\<close>

record bulkReq =
  bk_files :: "uploadedFile list"
  bk_application :: reqApplication
  bk_body :: uploadBody

record bulkItem =
  bi_imageId :: string
  bi_originalName :: string
  bi_filename :: string
  bi_size :: int
  bi_accessToken :: jwt

record bulkError =
  be_filename :: string
  be_error :: string

record bulkData =
  bd_uploaded :: "bulkItem list"
  bd_errors :: "bulkError list"
  bd_total :: nat
  bd_successful :: nat
  bd_failed :: nat

definition noMetadata :: metadata where
  "noMetadata = \<lparr>md_width = None, md_height = None, md_format = None, md_hasAlpha = None\<rparr>"

definition bulkDocument ::
    "env \<Rightarrow> bulkReq \<Rightarrow> uploadedFile \<Rightarrow> string \<Rightarrow> variants \<Rightarrow> string \<times> string option \<times> string option \<Rightarrow> image" where
  "bulkDocument e req f imgId vs sf =
     (case sf of (pth, key, loc) \<Rightarrow>
      \<lparr>imageId = imgId, originalName = f_originalname f, filename = f_filename f,
       mimetype = f_mimetype f, byteSize = f_size f, path = pth, url = loc, s3Key = key,
       application = ra_id (bk_application req),
       entityId = ifTruthy (b_entityId (bk_body req)),
       entityType = ifTruthy (b_entityType (bk_body req)),
       productId = ifTruthy (b_productId (bk_body req)),
       category = orElse (b_category (bk_body req)) ''uncategorized'',
       tags = [], alt = [], title = f_originalname f,
       isPublic = False, isDeleted = False, deletedAt = None, versions = [],
       variants = vs, metadata = (case f_metadata f of None \<Rightarrow> noMetadata | Some m \<Rightarrow> m),
       accessCount = 0, lastAccessedAt = None, createdAt = clock e, updatedAt = clock e\<rparr>)"

text \<open>
  The loop over \<^verbatim>\<open>req.files\<close>; \<open>i\<close> is the loop index, \<open>app\<close> the tenant
  document object, which \<^verbatim>\<open>recordUpload\<close> changes and saves after each stored file.
  An error inside the loop body is put on the error list and the loop goes on.
\<close>

fun bulkLoop ::
    "env \<Rightarrow> bulkReq \<Rightarrow> nat \<Rightarrow> uploadedFile list
     \<Rightarrow> db \<times> application \<times> bulkItem list \<times> bulkError list
     \<Rightarrow> db \<times> application \<times> bulkItem list \<times> bulkError list" where
  "bulkLoop e req i [] st = st"
| "bulkLoop e req i (f # fs) (s, app, results, errors) =
     (case tryGenerateVariants e f (uuidv4 e i) of (vs, warned) \<Rightarrow>
        (case storageFields e f of
           None \<Rightarrow>
             bulkLoop e req (Suc i) fs
               (s, app, results,
                errors @ [\<lparr>be_filename = f_originalname f, be_error = ''Cannot read properties of undefined''\<rparr>])
         | Some sf \<Rightarrow>
             (case saveNew (clock e) (bulkDocument e req f (uuidv4 e i) vs sf) (images s) of
                None \<Rightarrow>
                  bulkLoop e req (Suc i) fs
                    (s, app, results,
                     errors @ [\<lparr>be_filename = f_originalname f, be_error = ''Image validation failed''\<rparr>])
              | Some (img, docs') \<Rightarrow>
                  bulkLoop e req (Suc i) fs
                    (s\<lparr>images := docs',
                       apps := (apps s)(ra_id (bk_application req) \<mapsto> recordUpload app (f_size f))\<rparr>,
                     recordUpload app (f_size f),
                     results @ [\<lparr>bi_imageId = imageId img, bi_originalName = originalName img,
                                 bi_filename = filename img, bi_size = byteSize img,
                                 bi_accessToken = jwt_sign (JWT_SECRET e) (clock e)
                                    (imageClaims (imageId img) (ra_id (bk_application req))) 3600\<rparr>],
                     errors))))"

definition bulkUploadImages :: "env \<Rightarrow> db \<Rightarrow> bulkReq \<Rightarrow> bulkData response \<times> db" where
  "bulkUploadImages e s req =
     (if bk_files req = [] then (Failure 400 ''No files uploaded'', s)
      else
        (case findById (apps s) (ra_id (bk_application req)) of
           None \<Rightarrow> (Failure 404 ''Application not found'', s)
         | Some app0 \<Rightarrow>
             (case canUpload (clock e) app0 (sum_list (map f_size (bk_files req))) of (cu, app1) \<Rightarrow>
                if \<not> allowed cu
                then (QuotaFailure 413 ''Upload limits would be exceeded''
                        ((if \<not> monthlyLimit (reasons cu)
                          then [MonthlyLimitExceeded (maxImagesPerMonth (limits app1))] else [])
                         @ (if \<not> storageLimit (reasons cu)
                            then [StorageLimitExceeded (roundMB (maxStorageSize (limits app1)))] else []))
                        (cu_limits cu), s)
                else
                  (case bulkLoop e req 0 (bk_files req) (s, app1, [], []) of
                     (s', app', results, errors) \<Rightarrow>
                       (Success 201
                          \<lparr>bd_uploaded = results, bd_errors = errors,
                           bd_total = length (bk_files req), bd_successful = length results,
                           bd_failed = length errors\<rparr>, s')))))"

section \<open>\<^verbatim>\<open>updateImageMetadata\<close>, \<^verbatim>\<open>replaceImage\<close>, \<^verbatim>\<open>deleteImage\<close>\<close>

text \<open>The query of the owner's operations: the id, the caller's tenant, not soft-deleted.\<close>

definition ownedLive :: "string \<Rightarrow> objectId \<Rightarrow> image \<Rightarrow> bool" where
  "ownedLive i a d = (imageId d = i \<and> application d = a \<and> \<not> isDeleted d)"

text \<open>
  The body of a metadata update: a property that is \<^verbatim>\<open>undefined\<close> is \<open>None\<close>;
  \<open>mb_tags\<close> is an array (\<open>Inl\<close>) or a comma-separated string (\<open>Inr\<close>).
\<close>

record metaBody =
  mb_category :: "string option"
  mb_tags :: "(string list + string) option"
  mb_alt :: "string option"
  mb_title :: "string option"

record metaReq =
  m_imageId :: string
  m_application :: reqApplication
  m_body :: metaBody

record metaData =
  mt_imageId :: string
  mt_originalName :: string
  mt_category :: string
  mt_tags :: "string list"
  mt_alt :: string
  mt_title :: string
  mt_updatedAt :: date

text \<open>The four assignments of \<^verbatim>\<open>updateImageMetadata\<close>, before the save.\<close>

definition applyMetadata :: "metaBody \<Rightarrow> image \<Rightarrow> image" where
  "applyMetadata b img =
     (let i1 = (case mb_category b of None \<Rightarrow> img | Some c \<Rightarrow> img\<lparr>category := c\<rparr>);
          i2 = (case mb_tags b of
                  None \<Rightarrow> i1
                | Some (Inl ts) \<Rightarrow> i1\<lparr>tags := ts\<rparr>
                | Some (Inr t) \<Rightarrow> i1\<lparr>tags := splitTags t\<rparr>);
          i3 = (case mb_alt b of None \<Rightarrow> i2 | Some a \<Rightarrow> i2\<lparr>alt := a\<rparr>)
      in (case mb_title b of None \<Rightarrow> i3 | Some t \<Rightarrow> i3\<lparr>title := t\<rparr>))"

definition updateImageMetadata :: "env \<Rightarrow> image list \<Rightarrow> metaReq \<Rightarrow> metaData response \<times> image list" where
  "updateImageMetadata e docs req =
     (case findOne (ownedLive (m_imageId req) (ra_id (m_application req))) docs of
        None \<Rightarrow> (Failure 404 ''Image not found'', docs)
      | Some k \<Rightarrow>
          (case saveAt (clock e) k (applyMetadata (m_body req) (docs ! k)) docs of
             None \<Rightarrow> (Failure 500 ''Failed to update image metadata'', docs)
           | Some (img, docs') \<Rightarrow>
               (Success 200
                  \<lparr>mt_imageId = imageId img, mt_originalName = originalName img,
                   mt_category = category img, mt_tags = tags img, mt_alt = alt img,
                   mt_title = title img, mt_updatedAt = updatedAt img\<rparr>, docs')))"

record replaceReq =
  rp_imageId :: string
  rp_file :: "uploadedFile option"
  rp_fileMetadata :: metadata
  rp_application :: reqApplication

record replaceData =
  rd_imageId :: string
  rd_originalName :: string
  rd_filename :: string
  rd_size :: int
  rd_mimetype :: string
  rd_updatedAt :: date
  rd_metadata :: metadata
  rd_variants :: variants
  rd_accessToken :: jwt
  rd_versionsCount :: nat

text \<open>
  The assignments of \<^verbatim>\<open>replaceImage\<close> on the document that was found: the current
  version is archived, then the file details, the manifest and the storage fields are
  overwritten (with local storage only \<^verbatim>\<open>path\<close>).
\<close>

definition replaceDocument ::
    "env \<Rightarrow> replaceReq \<Rightarrow> uploadedFile \<Rightarrow> variants \<Rightarrow> string \<times> string option \<times> string option \<Rightarrow> image \<Rightarrow> image" where
  "replaceDocument e req f vs sf img =
     (case sf of (pth, key, loc) \<Rightarrow>
      (let archived = img\<lparr>versions := versions img @
                 [\<lparr>ver_filename = filename img, ver_path = path img, ver_s3Key = s3Key img,
                   ver_variants = Some (variants img), ver_createdAt = clock e\<rparr>]\<rparr>;
           updated = archived\<lparr>originalName := f_originalname f, filename := f_filename f,
                       mimetype := f_mimetype f, byteSize := f_size f,
                       metadata := rp_fileMetadata req, variants := vs\<rparr>
       in if STORAGE_TYPE e = Some ''s3''
          then updated\<lparr>s3Key := key, url := loc, path := pth\<rparr>
          else updated\<lparr>path := pth\<rparr>))"

definition replaceImage :: "env \<Rightarrow> image list \<Rightarrow> replaceReq \<Rightarrow> replaceData response \<times> image list" where
  "replaceImage e docs req =
     (case rp_file req of
        None \<Rightarrow> (Failure 400 ''No replacement file uploaded'', docs)
      | Some f \<Rightarrow>
          (case findOne (ownedLive (rp_imageId req) (ra_id (rp_application req))) docs of
             None \<Rightarrow> (Failure 404 ''Image not found'', docs)
           | Some k \<Rightarrow>
               (case tryGenerateVariants e f (rp_imageId req) of (vs, warned) \<Rightarrow>
                  (case storageFields e f of
                     None \<Rightarrow> (Failure 500 ''Failed to replace image'', docs)
                   | Some sf \<Rightarrow>
                       (case saveAt (clock e) k (replaceDocument e req f vs sf (docs ! k)) docs of
                          None \<Rightarrow> (Failure 500 ''Failed to replace image'', docs)
                        | Some (img, docs') \<Rightarrow>
                            (Success 200
                               \<lparr>rd_imageId = imageId img, rd_originalName = originalName img,
                                rd_filename = filename img, rd_size = byteSize img,
                                rd_mimetype = mimetype img, rd_updatedAt = updatedAt img,
                                rd_metadata = metadata img, rd_variants = vs,
                                rd_accessToken = jwt_sign (JWT_SECRET e) (clock e)
                                   (imageClaims (imageId img) (ra_id (rp_application req))) 3600,
                                rd_versionsCount = length (versions img)\<rparr>, docs'))))))"

record deleteReq =
  d_imageId :: string
  d_application :: reqApplication

text \<open>
  \<^verbatim>\<open>deleteImage\<close>: the soft delete. The removal of the files, five seconds later,
  touches the blob store only and no document.
\<close>

definition deleteImage :: "env \<Rightarrow> image list \<Rightarrow> deleteReq \<Rightarrow> string response \<times> image list" where
  "deleteImage e docs req =
     (case findOne (ownedLive (d_imageId req) (ra_id (d_application req))) docs of
        None \<Rightarrow> (Failure 404 ''Image not found or already deleted'', docs)
      | Some k \<Rightarrow>
          (case saveAt (clock e) k (softDelete (clock e) (docs ! k)) docs of
             None \<Rightarrow> (Failure 500 ''Failed to delete image'', docs)
           | Some (img, docs') \<Rightarrow> (Success 200 ''Image deleted successfully'', docs')))"

section \<open>\<^verbatim>\<open>listImages\<close>\<close>

record listReq =
  ls_application :: reqApplication
  ls_page :: "nat option"
  ls_limit :: "nat option"
  ls_entityId :: "string option"
  ls_entityType :: "string option"
  ls_productId :: "string option"
  ls_category :: "string option"
  ls_tags :: "string option"
  ls_search :: "string option"
  ls_sort :: "string option"

record listItem =
  li_imageId :: string
  li_originalName :: string
  li_category :: string
  li_accessCount :: int
  li_accessToken :: jwt

record listData =
  ld_images :: "listItem list"
  ld_page :: nat
  ld_limit :: nat
  ld_total :: nat
  ld_totalPages :: nat

text \<open>One optional equality filter of the query: it is added only for a truthy parameter.\<close>

definition filterEq :: "string option \<Rightarrow> string option \<Rightarrow> bool" where
  "filterEq param field = (if truthy param then field = param else True)"

text \<open>The Mongo query that \<^verbatim>\<open>listImages\<close> builds, as a test on one document.\<close>

definition listQuery :: "env \<Rightarrow> listReq \<Rightarrow> image \<Rightarrow> bool" where
  "listQuery e req d =
     (application d = ra_id (ls_application req) \<and> isDeleted d = False
      \<and> filterEq (ls_entityId req) (entityId d)
      \<and> filterEq (ls_entityType req) (entityType d)
      \<and> filterEq (ls_productId req) (productId d)
      \<and> filterEq (ls_category req) (Some (category d))
      \<and> (if truthy (ls_tags req)
          then set (map trim (splitOn CHR '','' (orElse (ls_tags req) []))) \<inter> set (tags d) \<noteq> {}
          else True)
      \<and> (if truthy (ls_search req)
          then list_ex (regexMatches e (orElse (ls_search req) []))
                 (originalName d # title d # alt d # tags d)
          else True))"

definition sortImages :: "env \<Rightarrow> string option \<Rightarrow> image list \<Rightarrow> image list" where
  "sortImages e srt docs =
     (if srt = Some ''name'' then sort_key (\<lambda>d. collation e (originalName d)) docs
      else if srt = Some ''size'' then rev (sort_key byteSize docs)
      else if srt = Some ''accessed'' then rev (sort_key (\<lambda>d. map_option getTime (lastAccessedAt d)) docs)
      else if srt = Some ''oldest'' then sort_key (\<lambda>d. getTime (createdAt d)) docs
      else rev (sort_key (\<lambda>d. getTime (createdAt d)) docs))"

text \<open>\<^verbatim>\<open>parseInt(x) || d\<close> on a parameter that validation has restricted to integers.\<close>

definition intOr :: "nat option \<Rightarrow> nat \<Rightarrow> nat" where
  "intOr x d = (case x of None \<Rightarrow> d | Some n \<Rightarrow> if n = 0 then d else n)"

definition listImages :: "env \<Rightarrow> image list \<Rightarrow> listReq \<Rightarrow> listData response" where
  "listImages e docs req =
     (let page = intOr (ls_page req) 1;
          limit = min (intOr (ls_limit req) 20) 100;
          skip = (page - 1) * limit
      in if truthy (ls_search req) \<and> \<not> regexCompiles e (orElse (ls_search req) [])
         then Failure 500 ''Failed to retrieve images''
         else
           (let matching = filter (listQuery e req) docs;
                shown = take limit (drop skip (sortImages e (ls_sort req) matching))
            in Success 200
                 \<lparr>ld_images = map (\<lambda>d.
                      \<lparr>li_imageId = imageId d, li_originalName = originalName d,
                       li_category = category d, li_accessCount = accessCount d,
                       li_accessToken = jwt_sign (JWT_SECRET e) (clock e)
                          (imageClaims (imageId d) (ra_id (ls_application req))) 3600\<rparr>) shown,
                  ld_page = page, ld_limit = limit, ld_total = length matching,
                  ld_totalPages = (length matching + limit - 1) div limit\<rparr>))"

text \<open>The ids that a listing answer shows; an error answer shows none.\<close>

fun listedIds :: "listData response \<Rightarrow> string list" where
  "listedIds (Success n data) = map li_imageId (ld_images data)"
| "listedIds (Failure n msg) = []"
| "listedIds (QuotaFailure n msg errs rem) = []"

section \<open>Sequences of requests\<close>

text \<open>
  One request to the image controller, and its effect on the stored state. The two
  reads and the owner's operations work on the image documents only.
\<close>

datatype operation =
    OpUpload uploadReq
  | OpBulkUpload bulkReq
  | OpGet readReq
  | OpInfo readReq
  | OpList listReq
  | OpUpdate metaReq
  | OpReplace replaceReq
  | OpDelete deleteReq

fun step :: "db \<Rightarrow> env \<times> operation \<Rightarrow> db" where
  "step s (e, OpUpload r) = snd (uploadImage e s r)"
| "step s (e, OpBulkUpload r) = snd (bulkUploadImages e s r)"
| "step s (e, OpGet r) = s\<lparr>images := snd (getImage e (images s) r)\<rparr>"
| "step s (e, OpInfo r) = s\<lparr>images := snd (getImageInfo e (images s) r)\<rparr>"
| "step s (e, OpList r) = s"
| "step s (e, OpUpdate r) = s\<lparr>images := snd (updateImageMetadata e (images s) r)\<rparr>"
| "step s (e, OpReplace r) = s\<lparr>images := snd (replaceImage e (images s) r)\<rparr>"
| "step s (e, OpDelete r) = s\<lparr>images := snd (deleteImage e (images s) r)\<rparr>"

definition run :: "db \<Rightarrow> (env \<times> operation) list \<Rightarrow> db" where
  "run s ops = foldl step s ops"

text \<open>
  The visibility rule in the words of the specification: the entity type is
  \<^verbatim>\<open>product\<close>, or the category is one of the four public categories, or a product id
  is associated (a non-empty string).
\<close>

definition publicByRule :: "image \<Rightarrow> bool" where
  "publicByRule d =
     (entityType d = Some ''product''
      \<or> category d \<in> {''product'', ''electronics'', ''clothing'', ''accessories''}
      \<or> truthy (productId d))"

section \<open>Relations between catalogue states\<close>

text \<open>
  \<open>evolves docs docs'\<close>: the catalogue \<open>docs'\<close> keeps every document of \<open>docs\<close> at its
  position with its id, keeps every soft-delete flag and every public flag that is set,
  and its further documents have ids that \<open>docs\<close> does not hold.
\<close>

definition evolves :: "image list \<Rightarrow> image list \<Rightarrow> bool" where
  "evolves docs docs' =
     (length docs \<le> length docs'
      \<and> (\<forall>k < length docs.
            imageId (docs' ! k) = imageId (docs ! k)
            \<and> (isDeleted (docs ! k) \<longrightarrow> isDeleted (docs' ! k))
            \<and> (isPublic (docs ! k) \<longrightarrow> isPublic (docs' ! k)))
      \<and> (\<forall>k. length docs \<le> k \<and> k < length docs' \<longrightarrow> imageId (docs' ! k) \<notin> imageId ` set docs))"

text \<open>
  \<open>tombstoned i docs\<close>: the catalogue holds the id \<open>i\<close>, and only on soft-deleted
  documents.
\<close>

definition tombstoned :: "string \<Rightarrow> image list \<Rightarrow> bool" where
  "tombstoned i docs = (i \<in> imageId ` set docs \<and> (\<forall>d \<in> set docs. imageId d = i \<longrightarrow> isDeleted d))"

section \<open>A small catalogue for worked examples\<close>

text \<open>
  The tenant \<^verbatim>\<open>acme\<close> on the free plan, as it is loaded from the store after its
  registration (\<open>demoHash\<close> stands for \<^verbatim>\<open>bcrypt.hash\<close> in the examples), with two
  stored assets: a public product image and a private one; and an environment with local
  storage in which the image library fails on every variant.
\<close>

definition demoHash :: "string \<Rightarrow> string \<Rightarrow> string" where
  "demoHash plaintext salt = ''$2a$12$'' @ salt @ plaintext"

definition demoRandom :: randomness where
  "demoRandom = \<lparr>rnd_key = ''9f86d081884c7d65'', rnd_secret = ''7a4427291dccc797'',
                 rnd_salt = ''N9qo8uLOickgx2ZM''\<rparr>"

definition acme :: application where
  "acme = (applicationPreSave demoHash demoRandom
             (newApplication 1 ''acme'' ''acme.example'' (Date 2024 0 1704067200000)))
          \<lparr>isNew := False, plainSecret := None\<rparr>"

definition sofaImage :: image where
  "sofaImage =
     \<lparr>imageId = ''550e8400-e29b-41d4-a716-446655440000'', originalName = ''sofa.jpg'',
      filename = ''a1_sofa.jpg'', mimetype = ''image/jpeg'', byteSize = 245760,
      path = ''uploads/a1_sofa.jpg'', url = None, s3Key = None, application = 1,
      entityId = None, entityType = None, productId = None, category = ''product'',
      tags = [], alt = [], title = ''sofa.jpg'', isPublic = True, isDeleted = False,
      deletedAt = None, versions = [], variants = [], metadata = noMetadata,
      accessCount = 0, lastAccessedAt = None, createdAt = Date 2024 0 1704067201000,
      updatedAt = Date 2024 0 1704067201000\<rparr>"

definition diaryImage :: image where
  "diaryImage =
     \<lparr>imageId = ''7c9e6679-7425-40de-944b-e07fc1f90ae7'', originalName = ''diary.png'',
      filename = ''b2_diary.png'', mimetype = ''image/png'', byteSize = 1024,
      path = ''uploads/b2_diary.png'', url = None, s3Key = None, application = 1,
      entityId = None, entityType = None, productId = None, category = ''personal'',
      tags = [], alt = [], title = ''diary.png'', isPublic = False, isDeleted = False,
      deletedAt = None, versions = [], variants = [], metadata = noMetadata,
      accessCount = 0, lastAccessedAt = None, createdAt = Date 2024 0 1704067202000,
      updatedAt = Date 2024 0 1704067202000\<rparr>"

definition demoEnv :: env where
  "demoEnv =
     \<lparr>clock = Date 2024 0 1704067205000, STORAGE_TYPE = None, UPLOAD_DIR = None, JWT_SECRET = ''s3cr3t'',
      uuidv4 = (\<lambda>n. ''16fd2706-8baf-433b-82eb-8c7fada847da''),
      joinPath = concat, relativePath = (\<lambda>p. p), resolvePath = (\<lambda>p. p),
      fileReadable = (\<lambda>p. True), mkdirOk = True, s3GetObjectOk = False,
      s3Upload = (\<lambda>k. None), sharpEncode = (\<lambda>p n. None), collation = (\<lambda>s. 0),
      regexCompiles = (\<lambda>p. True), regexMatches = (\<lambda>p t. False)\<rparr>"

definition demoDb :: db where
  "demoDb = \<lparr>images = [sofaImage, diaryImage], apps = [1 \<mapsto> acme]\<rparr>"

text \<open>The bearer token of \<^verbatim>\<open>acme\<close>, as \<^verbatim>\<open>/applications/authenticate\<close> issues it.\<close>

definition acmeBearer :: jwt where
  "acmeBearer = Jwt ''s3cr3t'' \<lparr>c_type = Some ''application'', c_id = Some 1,
                                 c_imageId = None, c_applicationId = None\<rparr> 1704153600"

text \<open>
  Requests of \<^verbatim>\<open>acme\<close>: the upload of a 1 MB JPEG in the category \<^verbatim>\<open>product\<close>,
  and the metadata update that moves the product image to the category \<^verbatim>\<open>personal\<close>.
\<close>

definition chairFile :: uploadedFile where
  "chairFile =
     \<lparr>f_originalname = ''chair.jpg'', f_filename = ''c3_chair.jpg'',
      f_mimetype = ''image/jpeg'', f_size = 1048576,
      f_path = Some ''uploads/c3_chair.jpg'', f_s3 = None, f_metadata = None\<rparr>"

definition productUpload :: uploadReq where
  "productUpload =
     \<lparr>u_file = Some chairFile,
      u_fileMetadata = \<lparr>md_width = Some 800, md_height = Some 600, md_format = Some ''jpeg'',
                        md_hasAlpha = Some False\<rparr>,
      u_application = toReqApplication acme,
      u_body = \<lparr>b_entityId = None, b_entityType = None, b_category = Some ''product'',
                b_tags = None, b_alt = None, b_title = None, b_productId = None\<rparr>\<rparr>"

definition toPersonal :: metaReq where
  "toPersonal =
     \<lparr>m_imageId = imageId sofaImage, m_application = toReqApplication acme,
      m_body = \<lparr>mb_category = Some ''personal'', mb_tags = None, mb_alt = None, mb_title = None\<rparr>\<rparr>"

definition sofaReplace :: replaceReq where
  "sofaReplace =
     \<lparr>rp_imageId = imageId sofaImage,
      rp_file = Some \<lparr>f_originalname = ''sofa2.jpg'', f_filename = ''d4_sofa2.jpg'',
                        f_mimetype = ''image/jpeg'', f_size = 2048,
                        f_path = Some ''uploads/d4_sofa2.jpg'', f_s3 = None, f_metadata = None\<rparr>,
      rp_fileMetadata = noMetadata, rp_application = toReqApplication acme\<rparr>"

text \<open>
  The deletion of the private asset by \<^verbatim>\<open>acme\<close>, a read of it that carries the bearer
  token of \<^verbatim>\<open>acme\<close>, and a listing by \<^verbatim>\<open>acme\<close>.
\<close>

definition diaryDelete :: deleteReq where
  "diaryDelete = \<lparr>d_imageId = imageId diaryImage, d_application = toReqApplication acme\<rparr>"

definition ownerRead :: readReq where
  "ownerRead = readRequest demoEnv (apps demoDb) (Some acmeBearer) (imageId diaryImage) None None"

definition acmeList :: listReq where
  "acmeList =
     \<lparr>ls_application = toReqApplication acme, ls_page = None, ls_limit = None,
      ls_entityId = None, ls_entityType = None, ls_productId = None, ls_category = None,
      ls_tags = None, ls_search = None, ls_sort = None\<rparr>"

section \<open>Properties of the tenant ledger\<close>

lemma resetMonthlyUsage_totals:
  "totalImages (usage (resetMonthlyUsage now t)) = totalImages (usage t)"
  "totalStorageUsed (usage (resetMonthlyUsage now t)) = totalStorageUsed (usage t)"
  "limits (resetMonthlyUsage now t) = limits t"
  by (simp_all add: resetMonthlyUsage_def Let_def)

lemma recordUpload_fold_totals:
  "totalStorageUsed (usage (foldl recordUpload t sizes)) = totalStorageUsed (usage t) + sum_list sizes
   \<and> totalImages (usage (foldl recordUpload t sizes)) = totalImages (usage t) + int (length sizes)"
  by (induction sizes arbitrary: t) (simp_all add: recordUpload_def)

text \<open>
  C5. A tenant whose usage counters are fresh (the schema's defaults, all zero) and on
  which \<^verbatim>\<open>recordUpload\<close> is called once per accepted upload, one call after the
  other, with the byte sizes \<open>s1 .. sN\<close>, ends with \<open>totalStorageUsed\<close> equal to the sum
  of the sizes and \<open>totalImages\<close> equal to \<open>N\<close>.
\<close>

theorem recordUpload_accumulates:
  assumes "usage t = defaultUsage d"
  shows "totalStorageUsed (usage (foldl recordUpload t sizes)) = sum_list sizes
         \<and> totalImages (usage (foldl recordUpload t sizes)) = int (length sizes)"
  using recordUpload_fold_totals [of t sizes] assms by (simp add: defaultUsage_def)

theorem recordUpload_accumulates_witness:
  "usage (newApplication 1 ''acme'' ''acme.example'' (Date 2024 0 1704067200000)) = defaultUsage (Date 2024 0 1704067200000)
   \<and> totalStorageUsed (usage (foldl recordUpload
         (newApplication 1 ''acme'' ''acme.example'' (Date 2024 0 1704067200000)) [100, 250, 7])) = 357
   \<and> totalImages (usage (foldl recordUpload
         (newApplication 1 ''acme'' ''acme.example'' (Date 2024 0 1704067200000)) [100, 250, 7])) = 3"
proof -
  have fresh: "usage (newApplication 1 ''acme'' ''acme.example'' (Date 2024 0 1704067200000)) = defaultUsage (Date 2024 0 1704067200000)"
    by (simp add: newApplication_def)
  from recordUpload_accumulates [OF fresh, of "[100, 250, 7]"] fresh show ?thesis
    by simp
qed

text \<open>
  C7. For every tenant and every candidate byte size, \<^verbatim>\<open>canUpload\<close> returns a value
  (the function has no failing branch) whose \<open>allowed\<close> is the conjunction of its three
  reasons; each reason reports its own test (monthly count below the limit, used storage
  plus the candidate within the storage limit, candidate within the per-file limit); and
  a candidate larger than \<open>maxFileSize\<close> gets \<open>fileSizeLimit = False\<close> and
  \<open>allowed = False\<close> whatever the monthly and storage budgets are.
\<close>

theorem canUpload_conjunction:
  "allowed (fst (canUpload now t sz)) =
     (monthlyLimit (reasons (fst (canUpload now t sz)))
      \<and> storageLimit (reasons (fst (canUpload now t sz)))
      \<and> fileSizeLimit (reasons (fst (canUpload now t sz))))
   \<and> monthlyLimit (reasons (fst (canUpload now t sz))) =
       (currentMonthUploads (usage (resetMonthlyUsage now t)) < maxImagesPerMonth (limits t))
   \<and> storageLimit (reasons (fst (canUpload now t sz))) =
       (totalStorageUsed (usage t) + sz \<le> maxStorageSize (limits t))
   \<and> fileSizeLimit (reasons (fst (canUpload now t sz))) = (sz \<le> maxFileSize (limits t))
   \<and> (maxFileSize (limits t) < sz \<longrightarrow>
        \<not> fileSizeLimit (reasons (fst (canUpload now t sz)))
        \<and> \<not> allowed (fst (canUpload now t sz)))"
  by (auto simp add: canUpload_def Let_def resetMonthlyUsage_totals)

theorem canUpload_conjunction_witness:
  "maxFileSize (limits (newApplication 1 ''acme'' ''acme.example'' (Date 2024 0 1704067200000))) < 5242881
   \<and> \<not> fileSizeLimit (reasons (fst (canUpload (Date 2024 0 1704067205000)
         (newApplication 1 ''acme'' ''acme.example'' (Date 2024 0 1704067200000)) 5242881)))
   \<and> \<not> allowed (fst (canUpload (Date 2024 0 1704067205000)
         (newApplication 1 ''acme'' ''acme.example'' (Date 2024 0 1704067200000)) 5242881))
   \<and> monthlyLimit (reasons (fst (canUpload (Date 2024 0 1704067205000)
         (newApplication 1 ''acme'' ''acme.example'' (Date 2024 0 1704067200000)) 5242881)))
   \<and> storageLimit (reasons (fst (canUpload (Date 2024 0 1704067205000)
         (newApplication 1 ''acme'' ''acme.example'' (Date 2024 0 1704067200000)) 5242881)))"
proof -
  have over: "maxFileSize (limits (newApplication 1 ''acme'' ''acme.example'' (Date 2024 0 1704067200000))) < 5242881"
    by (simp add: newApplication_def defaultLimits_def)
  from canUpload_conjunction [of "Date 2024 0 1704067205000"
      "newApplication 1 ''acme'' ''acme.example'' (Date 2024 0 1704067200000)" 5242881] over
  show ?thesis
    by (simp add: newApplication_def defaultLimits_def defaultUsage_def resetMonthlyUsage_def Let_def)
qed

text \<open>
  C4, as stated, fails for \<^verbatim>\<open>recordUpload\<close>: the method makes no reset check. A
  tenant whose last reset was in January 2024 and who has 5 uploads this month still has
  the January reset date and a monthly counter of 6 after \<^verbatim>\<open>recordUpload\<close>, in
  whatever month the call is made.
\<close>

theorem recordUpload_no_reset_counterexample:
  "currentMonthUploads (usage (recordUpload
       ((newApplication 1 ''acme'' ''acme.example'' (Date 2024 0 1704067200000))
          \<lparr>usage := \<lparr>totalImages = 5, totalStorageUsed = 500, currentMonthUploads = 5,
                     lastResetDate = Date 2024 0 1704067200000\<rparr>\<rparr>) 100)) = 6
   \<and> lastResetDate (usage (recordUpload
       ((newApplication 1 ''acme'' ''acme.example'' (Date 2024 0 1704067200000))
          \<lparr>usage := \<lparr>totalImages = 5, totalStorageUsed = 500, currentMonthUploads = 5,
                     lastResetDate = Date 2024 0 1704067200000\<rparr>\<rparr>) 100)) = Date 2024 0 1704067200000"
  by (simp add: recordUpload_def newApplication_def)

text \<open>
  C4, amended. The reset belongs to \<^verbatim>\<open>canUpload\<close> alone. When \<^verbatim>\<open>canUpload\<close> is
  called in a calendar month or year that differs from the stored \<open>lastResetDate\<close>, the
  monthly counter becomes 0 and \<open>lastResetDate\<close> becomes the time of the call; a later
  call in the same month and year changes nothing again. \<^verbatim>\<open>canUpload\<close> never changes
  \<open>totalStorageUsed\<close> or \<open>totalImages\<close>, and when month and year match it leaves the
  whole usage record as it was. \<^verbatim>\<open>recordUpload\<close> adds one to the monthly counter and
  keeps \<open>lastResetDate\<close>.
\<close>

theorem canUpload_monthly_reset:
  "(getMonth now \<noteq> getMonth (lastResetDate (usage t))
      \<or> getFullYear now \<noteq> getFullYear (lastResetDate (usage t)) \<longrightarrow>
        currentMonthUploads (usage (snd (canUpload now t sz))) = 0
        \<and> lastResetDate (usage (snd (canUpload now t sz))) = now)
   \<and> (getMonth now = getMonth (lastResetDate (usage t))
      \<and> getFullYear now = getFullYear (lastResetDate (usage t)) \<longrightarrow>
        usage (snd (canUpload now t sz)) = usage t)
   \<and> (getMonth now2 = getMonth now \<and> getFullYear now2 = getFullYear now \<longrightarrow>
        snd (canUpload now2 (snd (canUpload now t sz)) sz2) = snd (canUpload now t sz))
   \<and> totalStorageUsed (usage (snd (canUpload now t sz))) = totalStorageUsed (usage t)
   \<and> totalImages (usage (snd (canUpload now t sz))) = totalImages (usage t)
   \<and> currentMonthUploads (usage (recordUpload t sz)) = currentMonthUploads (usage t) + 1
   \<and> lastResetDate (usage (recordUpload t sz)) = lastResetDate (usage t)"
  by (simp add: canUpload_def resetMonthlyUsage_def recordUpload_def Let_def)

theorem canUpload_monthly_reset_witness:
  "getMonth (Date 2024 1 1706745600000) \<noteq> getMonth (lastResetDate (usage
       ((newApplication 1 ''acme'' ''acme.example'' (Date 2024 0 1704067200000))
          \<lparr>usage := \<lparr>totalImages = 5, totalStorageUsed = 500, currentMonthUploads = 5,
                     lastResetDate = Date 2024 0 1704067200000\<rparr>\<rparr>)))
   \<and> usage (snd (canUpload (Date 2024 1 1706745600000)
       ((newApplication 1 ''acme'' ''acme.example'' (Date 2024 0 1704067200000))
          \<lparr>usage := \<lparr>totalImages = 5, totalStorageUsed = 500, currentMonthUploads = 5,
                     lastResetDate = Date 2024 0 1704067200000\<rparr>\<rparr>) 100))
       = \<lparr>totalImages = 5, totalStorageUsed = 500, currentMonthUploads = 0,
          lastResetDate = Date 2024 1 1706745600000\<rparr>
   \<and> getMonth (Date 2024 0 1704585600000) = getMonth (Date 2024 0 1704067200000)
   \<and> getFullYear (Date 2024 0 1704585600000) = getFullYear (Date 2024 0 1704067200000)
   \<and> usage (snd (canUpload (Date 2024 0 1704585600000)
       ((newApplication 1 ''acme'' ''acme.example'' (Date 2024 0 1704067200000))
          \<lparr>usage := \<lparr>totalImages = 5, totalStorageUsed = 500, currentMonthUploads = 5,
                     lastResetDate = Date 2024 0 1704067200000\<rparr>\<rparr>) 100))
       = \<lparr>totalImages = 5, totalStorageUsed = 500, currentMonthUploads = 5,
          lastResetDate = Date 2024 0 1704067200000\<rparr>
   \<and> snd (canUpload (Date 2024 1 1708387200000) (snd (canUpload (Date 2024 1 1706745600000)
       ((newApplication 1 ''acme'' ''acme.example'' (Date 2024 0 1704067200000))
          \<lparr>usage := \<lparr>totalImages = 5, totalStorageUsed = 500, currentMonthUploads = 5,
                     lastResetDate = Date 2024 0 1704067200000\<rparr>\<rparr>) 100)) 7)
       = snd (canUpload (Date 2024 1 1706745600000)
       ((newApplication 1 ''acme'' ''acme.example'' (Date 2024 0 1704067200000))
          \<lparr>usage := \<lparr>totalImages = 5, totalStorageUsed = 500, currentMonthUploads = 5,
                     lastResetDate = Date 2024 0 1704067200000\<rparr>\<rparr>) 100)"
  using canUpload_monthly_reset [of "Date 2024 1 1706745600000"
      "(newApplication 1 ''acme'' ''acme.example'' (Date 2024 0 1704067200000))
          \<lparr>usage := \<lparr>totalImages = 5, totalStorageUsed = 500, currentMonthUploads = 5,
                     lastResetDate = Date 2024 0 1704067200000\<rparr>\<rparr>" 100 "Date 2024 1 1708387200000" 7]
    canUpload_monthly_reset [of "Date 2024 0 1704585600000"
      "(newApplication 1 ''acme'' ''acme.example'' (Date 2024 0 1704067200000))
          \<lparr>usage := \<lparr>totalImages = 5, totalStorageUsed = 500, currentMonthUploads = 5,
                     lastResetDate = Date 2024 0 1704067200000\<rparr>\<rparr>" 100 "Date 2024 0 1704585600000" 7]
  by (simp add: newApplication_def canUpload_def resetMonthlyUsage_def Let_def)

section \<open>Properties of the catalogue\<close>

lemma findOne_Some: "findOne q ds = Some k \<Longrightarrow> k < length ds \<and> q (ds ! k)"
proof (induction ds arbitrary: k)
  case Nil
  then show ?case by simp
next
  case (Cons d ds)
  then show ?case by (cases "q d") auto
qed

lemma findOne_None: "(findOne q ds = None) = (\<forall>d \<in> set ds. \<not> q d)"
  by (induction ds) auto

lemma preSave_keeps:
  "imageId (preSave d) = imageId d" "isDeleted (preSave d) = isDeleted d"
  "application (preSave d) = application d" "isPublic d \<Longrightarrow> isPublic (preSave d)"
  by (simp_all add: preSave_def)

lemma preSave_isPublic: "isPublic (preSave d) = (isPublic d \<or> publicByRule d)"
  by (auto simp add: preSave_def publicByRule_def)

lemma evolves_refl: "evolves docs docs"
  by (simp add: evolves_def)

lemma evolves_ids: "evolves a b \<Longrightarrow> imageId ` set a \<subseteq> imageId ` set b"
proof
  fix x assume ev: "evolves a b" and "x \<in> imageId ` set a"
  then obtain k where k: "k < length a" "imageId (a ! k) = x"
    by (auto simp add: in_set_conv_nth)
  with ev have "k < length b" "imageId (b ! k) = x" by (auto simp add: evolves_def)
  then show "x \<in> imageId ` set b" by (metis imageI nth_mem)
qed

lemma evolves_trans:
  assumes ab: "evolves a b" and bc: "evolves b c"
  shows "evolves a c"
  unfolding evolves_def
proof (intro conjI allI impI)
  show "length a \<le> length c" using ab bc by (simp add: evolves_def)
next
  fix k assume "k < length a"
  then have "k < length b" using ab by (simp add: evolves_def)
  show "imageId (c ! k) = imageId (a ! k)"
    using ab bc \<open>k < length a\<close> \<open>k < length b\<close> by (simp add: evolves_def)
next
  fix k assume "k < length a" "isDeleted (a ! k)"
  then show "isDeleted (c ! k)" using ab bc by (simp add: evolves_def)
next
  fix k assume "k < length a" "isPublic (a ! k)"
  then show "isPublic (c ! k)" using ab bc by (simp add: evolves_def)
next
  fix k assume k: "length a \<le> k \<and> k < length c"
  show "imageId (c ! k) \<notin> imageId ` set a"
  proof (cases "k < length b")
    case True
    then have "imageId (c ! k) = imageId (b ! k)" using bc by (simp add: evolves_def)
    moreover have "imageId (b ! k) \<notin> imageId ` set a" using ab k True by (simp add: evolves_def)
    ultimately show ?thesis by simp
  next
    case False
    then have "imageId (c ! k) \<notin> imageId ` set b" using bc k by (simp add: evolves_def)
    then show ?thesis using evolves_ids [OF ab] by blast
  qed
qed

lemma evolves_update:
  assumes "k < length docs" "imageId w = imageId (docs ! k)"
    "isDeleted (docs ! k) \<Longrightarrow> isDeleted w" "isPublic (docs ! k) \<Longrightarrow> isPublic w"
  shows "evolves docs (docs[k := w])"
  using assms by (auto simp add: evolves_def nth_list_update)

lemma evolves_append:
  assumes "imageId w \<notin> imageId ` set docs"
  shows "evolves docs (docs @ [w])"
  using assms by (auto simp add: evolves_def nth_append less_Suc_eq)

lemma tombstoned_evolves:
  assumes t: "tombstoned i docs" and ev: "evolves docs docs'"
  shows "tombstoned i docs'"
  unfolding tombstoned_def
proof (intro conjI ballI impI)
  show "i \<in> imageId ` set docs'" using t evolves_ids [OF ev] by (auto simp add: tombstoned_def)
next
  fix d assume "d \<in> set docs'" and di: "imageId d = i"
  then obtain k where k: "k < length docs'" "docs' ! k = d" by (auto simp add: in_set_conv_nth)
  show "isDeleted d"
  proof (cases "k < length docs")
    case True
    then have "imageId (docs ! k) = i" using ev k di by (auto simp add: evolves_def)
    then have "isDeleted (docs ! k)" using t True by (auto simp add: tombstoned_def)
    then show ?thesis using ev True k by (auto simp add: evolves_def)
  next
    case False
    with ev k(1) have "imageId (docs' ! k) \<notin> imageId ` set docs" by (simp add: evolves_def)
    then show ?thesis using t k(2) di by (simp add: tombstoned_def)
  qed
qed

lemma saveAt_Some:
  assumes "saveAt now k doc docs = Some (w, docs')"
  shows "docs' = docs[k := w] \<and> w = (preSave doc)\<lparr>updatedAt := now\<rparr> \<and> validateImage doc"
  using assms by (auto simp add: saveAt_def Let_def split: if_splits)

lemma saveAt_evolves:
  assumes sv: "saveAt now k doc docs = Some (w, docs')" and k: "k < length docs"
    and same: "imageId doc = imageId (docs ! k)"
    and del: "isDeleted (docs ! k) \<Longrightarrow> isDeleted doc"
    and pub: "isPublic (docs ! k) \<Longrightarrow> isPublic doc"
  shows "evolves docs docs'"
proof -
  from saveAt_Some [OF sv] have d: "docs' = docs[k := w]" and w: "w = (preSave doc)\<lparr>updatedAt := now\<rparr>"
    by simp_all
  have "imageId w = imageId (docs ! k)" using w same by (simp add: preSave_keeps)
  moreover have "isDeleted (docs ! k) \<Longrightarrow> isDeleted w" using w del by (simp add: preSave_keeps)
  moreover have "isPublic (docs ! k) \<Longrightarrow> isPublic w" using w pub by (simp add: preSave_keeps)
  ultimately show ?thesis unfolding d using k by (intro evolves_update) auto
qed

lemma saveNew_Some:
  assumes "saveNew now doc docs = Some (w, docs')"
  shows "docs' = docs @ [w] \<and> w = (preSave doc)\<lparr>createdAt := now, updatedAt := now\<rparr>
         \<and> validateImage doc \<and> imageId doc \<notin> imageId ` set docs"
  using assms by (auto simp add: saveNew_def Let_def split: if_splits)

lemma saveNew_evolves:
  assumes "saveNew now doc docs = Some (w, docs')"
  shows "evolves docs docs'"
proof -
  from saveNew_Some [OF assms] have "docs' = docs @ [w]" "imageId w \<notin> imageId ` set docs"
    by (simp_all add: preSave_keeps)
  then show ?thesis by (simp add: evolves_append)
qed

lemma getImage_evolves: "evolves docs (snd (getImage e docs r))"
proof (cases "findOne (liveWithId (p_imageId r)) docs")
  case None
  then show ?thesis by (simp add: getImage_def evolves_refl)
next
  case (Some k)
  then have k: "k < length docs" by (simp add: findOne_Some)
  show ?thesis
  proof (cases "getImage_access e r (docs ! k)")
    case (Deny n msg)
    with Some show ?thesis by (simp add: getImage_def evolves_refl)
  next
    case Grant
    show ?thesis
    proof (cases "saveAt (clock e) k (recordAccess (clock e) (docs ! k)) docs")
      case None
      with Some Grant show ?thesis by (simp add: getImage_def evolves_refl)
    next
      case (Some a)
      then obtain w docs' where sv: "saveAt (clock e) k (recordAccess (clock e) (docs ! k)) docs = Some (w, docs')"
        by (cases a) auto
      have "evolves docs docs'"
        by (rule saveAt_evolves [OF sv k]) (simp_all add: recordAccess_def)
      with \<open>findOne (liveWithId (p_imageId r)) docs = Some k\<close> Grant sv show ?thesis
        by (simp add: getImage_def)
    qed
  qed
qed

lemma applyMetadata_keeps:
  "imageId (applyMetadata b d) = imageId d" "isDeleted (applyMetadata b d) = isDeleted d"
  "isPublic (applyMetadata b d) = isPublic d" "application (applyMetadata b d) = application d"
  by (simp_all add: applyMetadata_def Let_def split: option.splits sum.splits)

lemma replaceDocument_keeps:
  "imageId (replaceDocument e r f vs sf d) = imageId d"
  "isDeleted (replaceDocument e r f vs sf d) = isDeleted d"
  "isPublic (replaceDocument e r f vs sf d) = isPublic d"
  "application (replaceDocument e r f vs sf d) = application d"
  by (simp_all add: replaceDocument_def Let_def split: prod.splits)

lemma getImageInfo_evolves: "evolves docs (snd (getImageInfo e docs r))"
  by (auto simp add: getImageInfo_def evolves_refl recordAccess_def
      split: option.splits infoDecision.splits
      intro!: saveAt_evolves dest: findOne_Some)

lemma updateImageMetadata_evolves: "evolves docs (snd (updateImageMetadata e docs r))"
  by (auto simp add: updateImageMetadata_def evolves_refl applyMetadata_keeps
      split: option.splits
      intro!: saveAt_evolves dest: findOne_Some)

lemma replaceImage_evolves: "evolves docs (snd (replaceImage e docs r))"
  by (auto simp add: replaceImage_def evolves_refl replaceDocument_keeps
      split: option.splits prod.splits
      intro!: saveAt_evolves dest: findOne_Some)

lemma deleteImage_evolves: "evolves docs (snd (deleteImage e docs r))"
  by (auto simp add: deleteImage_def evolves_refl softDelete_def
      split: option.splits
      intro!: saveAt_evolves dest: findOne_Some)

lemma uploadImage_evolves: "evolves (images s) (images (snd (uploadImage e s r)))"
  by (auto simp add: uploadImage_def evolves_refl
      split: option.splits prod.splits
      intro!: saveNew_evolves)

lemma bulkLoop_evolves:
  "evolves (images s) (images (fst (bulkLoop e r i fs (s, app, results, errors))))"
proof (induction fs arbitrary: i s app results errors)
  case Nil
  show ?case by (simp add: evolves_refl)
next
  case (Cons f fs)
  obtain vs warned where tg: "tryGenerateVariants e f (uuidv4 e i) = (vs, warned)"
    by (cases "tryGenerateVariants e f (uuidv4 e i)")
  show ?case
  proof (cases "storageFields e f")
    case None
    then show ?thesis using Cons.IH tg by simp
  next
    case (Some sf)
    show ?thesis
    proof (cases "saveNew (clock e) (bulkDocument e r f (uuidv4 e i) vs sf) (images s)")
      case None
      with Some tg show ?thesis using Cons.IH by simp
    next
      case sv: (Some a)
      obtain w docs' where a: "a = (w, docs')" by (cases a)
      have 1: "evolves (images s) docs'" using sv a by (auto intro: saveNew_evolves)
      have 2: "evolves docs' (images (fst (bulkLoop e r (Suc i) fs
                  (s\<lparr>images := docs', apps := (apps s)(ra_id (bk_application r) \<mapsto> recordUpload app (f_size f))\<rparr>,
                   recordUpload app (f_size f),
                   results @ [\<lparr>bi_imageId = imageId w, bi_originalName = originalName w,
                                 bi_filename = filename w, bi_size = byteSize w,
                                 bi_accessToken = jwt_sign (JWT_SECRET e) (clock e)
                                    (imageClaims (imageId w) (ra_id (bk_application r))) 3600\<rparr>],
                   errors))))"
        using Cons.IH [of "s\<lparr>images := docs', apps := (apps s)(ra_id (bk_application r) \<mapsto> recordUpload app (f_size f))\<rparr>"]
        by simp
      from evolves_trans [OF 1 2] Some sv a tg show ?thesis by simp
    qed
  qed
qed

lemma bulkUploadImages_evolves: "evolves (images s) (images (snd (bulkUploadImages e s r)))"
proof (cases "bk_files r = [] \<or> findById (apps s) (ra_id (bk_application r)) = None")
  case True
  then show ?thesis by (auto simp add: bulkUploadImages_def evolves_refl)
next
  case False
  then obtain app0 where app0: "findById (apps s) (ra_id (bk_application r)) = Some app0" by auto
  obtain cu app1 where cu: "canUpload (clock e) app0 (sum_list (map f_size (bk_files r))) = (cu, app1)"
    by (cases "canUpload (clock e) app0 (sum_list (map f_size (bk_files r)))")
  obtain s' app' results errors where
    bl: "bulkLoop e r 0 (bk_files r) (s, app1, [], []) = (s', app', results, errors)"
    by (cases "bulkLoop e r 0 (bk_files r) (s, app1, [], [])")
  from bulkLoop_evolves [of s e r 0 "bk_files r" app1 "[]" "[]"] bl
  have "evolves (images s) (images s')" by simp
  with False app0 cu bl show ?thesis
    by (simp add: bulkUploadImages_def evolves_refl)
qed

lemma step_evolves: "evolves (images s) (images (step s eo))"
proof (cases eo)
  case (Pair e op)
  show ?thesis
    unfolding Pair
    by (cases op)
      (simp_all add: uploadImage_evolves bulkUploadImages_evolves getImage_evolves
        getImageInfo_evolves updateImageMetadata_evolves replaceImage_evolves
        deleteImage_evolves evolves_refl)
qed

lemma run_evolves: "evolves (images s) (images (run s ops))"
  unfolding run_def
proof (induction ops arbitrary: s)
  case Nil
  show ?case by (simp add: evolves_refl)
next
  case (Cons eo ops)
  from evolves_trans [OF step_evolves Cons.IH] show ?case by simp
qed

section \<open>Properties of the access decision\<close>

lemma readRequest_fields:
  "p_imageId (readRequest e m bearer i token sz) = i"
  "q_token (readRequest e m bearer i token sz) = token"
  "q_size (readRequest e m bearer i token sz) = sz"
  "r_userId (readRequest e m bearer i token sz) = None"
  by (simp_all add: readRequest_def optionalApplicationAuth_def split: option.splits)

lemma readRequest_no_bearer: "r_application (readRequest e m None i token sz) = None"
  by (simp add: readRequest_def optionalApplicationAuth_def)

lemma readRequest_bearer:
  assumes "jwt_verify (JWT_SECRET e) (clock e) b = Some c" "c_type c = Some ''application''"
    "c_id c = Some a" "m a = Some app" "isActive app"
  shows "r_application (readRequest e m (Some b) i token sz) = Some (toReqApplication app)"
  using assms by (simp add: readRequest_def optionalApplicationAuth_def)

text \<open>
  On the route, \<^verbatim>\<open>getImage\<close> answers 401 to every request for a private asset that
  carries no signed token, whatever bearer identity it carries.
\<close>

lemma getImage_without_token:
  assumes "findOne (liveWithId i) docs = Some k" "\<not> isPublic (docs ! k)"
  shows "fst (getImage e docs (readRequest e m bearer i None sz))
         = Failure 401 ''Access token required or authenticate to access image''"
  using assms by (simp add: getImage_def getImage_access_def readRequest_fields)

text \<open>\<^verbatim>\<open>getImageInfo\<close> grants the owner's bearer identity and mints a token.\<close>

lemma getImageInfo_owner:
  assumes found: "findOne (liveWithId i) docs = Some k" and priv: "\<not> isPublic (docs ! k)"
    and valid: "validateImage (docs ! k)"
    and ra: "r_application (readRequest e m bearer i None sz) = Some ra"
    and own: "application (docs ! k) = ra_id ra"
  shows "\<exists>d. fst (getImageInfo e docs (readRequest e m bearer i None sz)) = Success 200 d
              \<and> info_accessToken d = Some (jwt_sign (JWT_SECRET e) (clock e)
                                               (imageClaims (imageId (docs ! k)) (ra_id ra)) 3600)"
proof -
  have v: "validateImage (recordAccess (clock e) (docs ! k))"
    using valid by (simp add: validateImage_def recordAccess_def)
  show ?thesis
    using found priv ra own v
    by (simp add: getImageInfo_def getImageInfo_access_def readRequest_fields saveAt_def
        Let_def infoResponse_def)
qed

lemma getImage_wrong_token:
  assumes "findOne (liveWithId (p_imageId r)) docs = Some k" "\<not> isPublic (docs ! k)"
    "q_token r = Some t" "jwt_verify (JWT_SECRET e) (clock e) t = Some c"
    "c_imageId c \<noteq> Some (p_imageId r)"
  shows "fst (getImage e docs r) = Failure 403 ''Invalid access token for this image''"
  using assms by (simp add: getImage_def getImage_access_def)

lemma getImageInfo_wrong_token:
  assumes "findOne (liveWithId (p_imageId r)) docs = Some k" "\<not> isPublic (docs ! k)"
    "q_token r = Some t" "jwt_verify (JWT_SECRET e) (clock e) t = Some c"
    "c_imageId c \<noteq> Some (p_imageId r)"
  shows "fst (getImageInfo e docs r)
         = Failure 403 ''Access denied. Authentication required for private images.''"
  using assms by (simp add: getImageInfo_def getImageInfo_access_def)

lemma getImageInfo_without_credentials:
  assumes "findOne (liveWithId (p_imageId r)) docs = Some k" "\<not> isPublic (docs ! k)"
    "q_token r = None" "r_application r = None"
  shows "fst (getImageInfo e docs r)
         = Failure 403 ''Access denied. Authentication required for private images.''"
  using assms by (simp add: getImageInfo_def getImageInfo_access_def)

lemmas demo_defs = demoDb_def demoEnv_def acmeBearer_def acme_def diaryImage_def sofaImage_def
  newApplication_def productUpload_def toPersonal_def toReqApplication_def sofaReplace_def
  chairFile_def applicationPreSave_def demoHash_def demoRandom_def

text \<open>
  C1. A private, live asset read with no signed token and with the bearer identity of the
  owning tenant should be served by both reads. For the private asset of \<^verbatim>\<open>acme\<close>
  and the request that carries the bearer token of \<^verbatim>\<open>acme\<close>, the middleware sets
  \<^verbatim>\<open>req.application\<close> to the owner, \<^verbatim>\<open>getImageInfo\<close> answers 200, and
  \<^verbatim>\<open>getImage\<close> answers 401: it tests \<^verbatim>\<open>req.userId\<close>, which no middleware of
  the route sets.
\<close>

theorem getImage_denies_owner_bearer:
  "isPublic diaryImage = False \<and> isDeleted diaryImage = False
   \<and> application diaryImage = app_id acme
   \<and> map_option ra_id (r_application
        (readRequest demoEnv (apps demoDb) (Some acmeBearer) (imageId diaryImage) None None)) = Some (app_id acme)
   \<and> fst (getImage demoEnv (images demoDb)
        (readRequest demoEnv (apps demoDb) (Some acmeBearer) (imageId diaryImage) None None))
       = Failure 401 ''Access token required or authenticate to access image''
   \<and> status (fst (getImageInfo demoEnv (images demoDb)
        (readRequest demoEnv (apps demoDb) (Some acmeBearer) (imageId diaryImage) None None))) = 200"
  by (simp add: getImage_def getImage_access_def getImageInfo_def getImageInfo_access_def
      readRequest_def optionalApplicationAuth_def liveWithId_def jwt_verify_def
      toReqApplication_def saveAt_def validateImage_def mimetypeEnum_def recordAccess_def
      Let_def demo_defs)

text \<open>
  C2. A private, live asset read with neither a bearer identity nor a token should get
  401 from both reads. For the private asset of \<^verbatim>\<open>acme\<close> and the request without
  any credential, \<^verbatim>\<open>getImage\<close> answers 401 and \<^verbatim>\<open>getImageInfo\<close> answers 403.
  (A valid token for another asset gets 403 from both reads: \<open>getImage_wrong_token\<close>,
  \<open>getImageInfo_wrong_token\<close>.)
\<close>

theorem getImageInfo_forbids_anonymous:
  "isPublic diaryImage = False \<and> isDeleted diaryImage = False
   \<and> fst (getImageInfo demoEnv (images demoDb)
        (readRequest demoEnv (apps demoDb) None (imageId diaryImage) None None))
       = Failure 403 ''Access denied. Authentication required for private images.''
   \<and> fst (getImage demoEnv (images demoDb)
        (readRequest demoEnv (apps demoDb) None (imageId diaryImage) None None))
       = Failure 401 ''Access token required or authenticate to access image''"
  by (simp add: getImage_def getImage_access_def getImageInfo_def getImageInfo_access_def
      readRequest_def optionalApplicationAuth_def liveWithId_def demo_defs)

section \<open>Properties of visibility\<close>

lemma preSave_rule: "publicByRule (preSave d) = publicByRule d"
  by (simp add: preSave_def publicByRule_def)

lemma publicByRule_timestamps:
  "publicByRule (d\<lparr>updatedAt := t\<rparr>) = publicByRule d"
  "publicByRule (d\<lparr>createdAt := t\<rparr>) = publicByRule d"
  by (simp_all add: publicByRule_def)

lemma saveAt_visibility:
  assumes "saveAt now k doc docs = Some (w, docs')"
  shows "isPublic w = (isPublic doc \<or> publicByRule w)" and "publicByRule w = publicByRule doc"
proof -
  from saveAt_Some [OF assms] have w: "w = (preSave doc)\<lparr>updatedAt := now\<rparr>" by simp
  show "publicByRule w = publicByRule doc"
    unfolding w by (simp only: publicByRule_timestamps preSave_rule)
  then show "isPublic w = (isPublic doc \<or> publicByRule w)"
    unfolding w by (simp add: preSave_isPublic)
qed

lemma saveNew_visibility:
  assumes "saveNew now doc docs = Some (w, docs')"
  shows "isPublic w = (isPublic doc \<or> publicByRule w)" and "publicByRule w = publicByRule doc"
proof -
  from saveNew_Some [OF assms] have w: "w = (preSave doc)\<lparr>createdAt := now, updatedAt := now\<rparr>"
    by simp
  show "publicByRule w = publicByRule doc"
    unfolding w by (simp only: publicByRule_timestamps preSave_rule)
  then show "isPublic w = (isPublic doc \<or> publicByRule w)"
    unfolding w by (simp add: preSave_isPublic)
qed

lemma uploadImage_created:
  assumes "uploadImage e s r = (Success n d, s')"
  shows "\<exists>f app0 vs warned sf img.
           u_file r = Some f \<and> findById (apps s) (ra_id (u_application r)) = Some app0
           \<and> allowed (fst (canUpload (clock e) app0 (f_size f)))
           \<and> tryGenerateVariants e f (uuidv4 e 0) = (vs, warned)
           \<and> storageFields e f = Some sf
           \<and> saveNew (clock e) (uploadDocument e r f (uuidv4 e 0) vs sf) (images s) = Some (img, images s')
           \<and> n = 201
           \<and> d = uploadAnswer img vs (jwt_sign (JWT_SECRET e) (clock e)
                    (imageClaims (imageId img) (ra_id (u_application r))) 3600)
           \<and> apps s' = (apps s)(ra_id (u_application r) \<mapsto>
                 recordUpload (snd (canUpload (clock e) app0 (f_size f))) (f_size f))"
  using assms
  by (auto simp add: uploadImage_def split: option.splits prod.splits if_splits)

lemma uploadImage_201:
  assumes "status (fst (uploadImage e s r)) = 201"
  shows "\<exists>d. uploadImage e s r = (Success 201 d, snd (uploadImage e s r))"
  using assms
  by (auto simp add: uploadImage_def split: option.splits prod.splits if_splits)

lemma updateImageMetadata_200:
  assumes "findOne (ownedLive (m_imageId r) (ra_id (m_application r))) docs = Some k"
    and "status (fst (updateImageMetadata e docs r)) = 200"
  shows "\<exists>w. saveAt (clock e) k (applyMetadata (m_body r) (docs ! k)) docs
                = Some (w, snd (updateImageMetadata e docs r))"
  using assms by (auto simp add: updateImageMetadata_def split: option.splits)

lemma replaceImage_200:
  assumes "findOne (ownedLive (rp_imageId r) (ra_id (rp_application r))) docs = Some k"
    and "status (fst (replaceImage e docs r)) = 200"
  shows "\<exists>f vs sf w. saveAt (clock e) k (replaceDocument e r f vs sf (docs ! k)) docs
                = Some (w, snd (replaceImage e docs r))"
  using assms by (fastforce simp add: replaceImage_def split: option.splits prod.splits)

lemma saveAt_nth:
  assumes "saveAt now k doc docs = Some (w, docs')" "k < length docs"
  shows "docs' ! k = w"
  using saveAt_Some [OF assms(1)] assms(2) by simp

lemma uploadDocument_private: "isPublic (uploadDocument e r f i vs sf) = False"
  by (simp add: uploadDocument_def split: prod.splits)

text \<open>
  C3, amended. A save never clears the public flag: after a save the flag is set exactly
  when it was set before the save or the visibility rule holds of the saved document. So
  a new asset, which starts from the schema's default \<open>False\<close>, is public after its
  creation exactly when the rule holds; after a metadata update or a replace, which write
  a stored document back, the flag is set exactly when it was set before or the rule
  holds of the updated document.
\<close>

theorem visibility_after_save:
  "(status (fst (uploadImage e s r)) = 201 \<longrightarrow>
      images (snd (uploadImage e s r)) = images s @ [last (images (snd (uploadImage e s r)))]
      \<and> isPublic (last (images (snd (uploadImage e s r))))
          = publicByRule (last (images (snd (uploadImage e s r)))))
   \<and> (findOne (ownedLive (m_imageId mr) (ra_id (m_application mr))) ds = Some k
        \<and> status (fst (updateImageMetadata e1 ds mr)) = 200 \<longrightarrow>
      isPublic (snd (updateImageMetadata e1 ds mr) ! k)
        = (isPublic (ds ! k) \<or> publicByRule (snd (updateImageMetadata e1 ds mr) ! k)))
   \<and> (findOne (ownedLive (rp_imageId rr) (ra_id (rp_application rr))) ds2 = Some j
        \<and> status (fst (replaceImage e2 ds2 rr)) = 200 \<longrightarrow>
      isPublic (snd (replaceImage e2 ds2 rr) ! j)
        = (isPublic (ds2 ! j) \<or> publicByRule (snd (replaceImage e2 ds2 rr) ! j)))
   \<and> (saveAt now i doc docs = Some (w, docs') \<longrightarrow> isPublic w = (isPublic doc \<or> publicByRule w))
   \<and> (saveNew now2 doc2 docs2 = Some (w2, docs2') \<longrightarrow> isPublic w2 = (isPublic doc2 \<or> publicByRule w2))"
proof (intro conjI impI)
  assume st: "status (fst (uploadImage e s r)) = 201"
  from uploadImage_201 [OF st] obtain d where "uploadImage e s r = (Success 201 d, snd (uploadImage e s r))" ..
  from uploadImage_created [OF this] obtain f vs sf img where
    sv: "saveNew (clock e) (uploadDocument e r f (uuidv4 e 0) vs sf) (images s)
           = Some (img, images (snd (uploadImage e s r)))"
    by blast
  from saveNew_Some [OF sv] have app: "images (snd (uploadImage e s r)) = images s @ [img]" by simp
  then have l: "last (images (snd (uploadImage e s r))) = img" by simp
  show "images (snd (uploadImage e s r)) = images s @ [last (images (snd (uploadImage e s r)))]"
    using app l by simp
  show "isPublic (last (images (snd (uploadImage e s r))))
          = publicByRule (last (images (snd (uploadImage e s r))))"
    unfolding l using saveNew_visibility(1) [OF sv] by (simp add: uploadDocument_private)
next
  assume a: "findOne (ownedLive (m_imageId mr) (ra_id (m_application mr))) ds = Some k
        \<and> status (fst (updateImageMetadata e1 ds mr)) = 200"
  then have k: "k < length ds" using findOne_Some by blast
  from a updateImageMetadata_200 obtain x where
    sv: "saveAt (clock e1) k (applyMetadata (m_body mr) (ds ! k)) ds
           = Some (x, snd (updateImageMetadata e1 ds mr))" by blast
  show "isPublic (snd (updateImageMetadata e1 ds mr) ! k)
        = (isPublic (ds ! k) \<or> publicByRule (snd (updateImageMetadata e1 ds mr) ! k))"
    using saveAt_visibility(1) [OF sv] saveAt_nth [OF sv k] by (simp add: applyMetadata_keeps)
next
  assume a: "findOne (ownedLive (rp_imageId rr) (ra_id (rp_application rr))) ds2 = Some j
        \<and> status (fst (replaceImage e2 ds2 rr)) = 200"
  then have j: "j < length ds2" using findOne_Some by blast
  from a replaceImage_200 obtain f vs sf x where
    sv: "saveAt (clock e2) j (replaceDocument e2 rr f vs sf (ds2 ! j)) ds2
           = Some (x, snd (replaceImage e2 ds2 rr))" by blast
  show "isPublic (snd (replaceImage e2 ds2 rr) ! j)
        = (isPublic (ds2 ! j) \<or> publicByRule (snd (replaceImage e2 ds2 rr) ! j))"
    using saveAt_visibility(1) [OF sv] saveAt_nth [OF sv j] by (simp add: replaceDocument_keeps)
next
  assume "saveAt now i doc docs = Some (w, docs')"
  then show "isPublic w = (isPublic doc \<or> publicByRule w)" by (rule saveAt_visibility(1))
next
  assume "saveNew now2 doc2 docs2 = Some (w2, docs2')"
  then show "isPublic w2 = (isPublic doc2 \<or> publicByRule w2)" by (rule saveNew_visibility(1))
qed

lemmas eval_defs = uploadImage_def findById_def canUpload_def resetMonthlyUsage_def
  tryGenerateVariants_def generateImageVariants_def IMAGE_SIZES_def storageFields_def
  saveNew_def saveAt_def validateImage_def mimetypeEnum_def uploadDocument_def Let_def
  defaultLimits_def defaultUsage_def updateImageMetadata_def replaceImage_def
  replaceDocument_def applyMetadata_def ownedLive_def liveWithId_def preSave_def truthy_def
  publicByRule_def noMetadata_def noVariant_def

theorem visibility_after_save_witness:
  "status (fst (uploadImage demoEnv demoDb productUpload)) = 201
   \<and> isPublic (last (images (snd (uploadImage demoEnv demoDb productUpload))))
       = publicByRule (last (images (snd (uploadImage demoEnv demoDb productUpload))))
   \<and> findOne (ownedLive (m_imageId toPersonal) (ra_id (m_application toPersonal))) (images demoDb) = Some 0
   \<and> status (fst (updateImageMetadata demoEnv (images demoDb) toPersonal)) = 200
   \<and> isPublic (snd (updateImageMetadata demoEnv (images demoDb) toPersonal) ! 0)
       = (isPublic (images demoDb ! 0)
          \<or> publicByRule (snd (updateImageMetadata demoEnv (images demoDb) toPersonal) ! 0))
   \<and> findOne (ownedLive (rp_imageId sofaReplace) (ra_id (rp_application sofaReplace))) (images demoDb) = Some 0
   \<and> status (fst (replaceImage demoEnv (images demoDb) sofaReplace)) = 200
   \<and> isPublic (snd (replaceImage demoEnv (images demoDb) sofaReplace) ! 0)
       = (isPublic (images demoDb ! 0)
          \<or> publicByRule (snd (replaceImage demoEnv (images demoDb) sofaReplace) ! 0))
   \<and> saveAt (clock demoEnv) 1 (recordAccess (clock demoEnv) diaryImage) (images demoDb)
       = Some ((recordAccess (clock demoEnv) diaryImage)\<lparr>updatedAt := clock demoEnv\<rparr>,
               [sofaImage, (recordAccess (clock demoEnv) diaryImage)\<lparr>updatedAt := clock demoEnv\<rparr>])
   \<and> saveNew (clock demoEnv) diaryImage [sofaImage]
       = Some (diaryImage\<lparr>createdAt := clock demoEnv, updatedAt := clock demoEnv\<rparr>,
               [sofaImage, diaryImage\<lparr>createdAt := clock demoEnv, updatedAt := clock demoEnv\<rparr>])
   \<and> isPublic (diaryImage\<lparr>createdAt := clock demoEnv, updatedAt := clock demoEnv\<rparr>)
       = (isPublic diaryImage
          \<or> publicByRule (diaryImage\<lparr>createdAt := clock demoEnv, updatedAt := clock demoEnv\<rparr>))"
proof -
  have p1: "status (fst (uploadImage demoEnv demoDb productUpload)) = 201"
    by (simp add: eval_defs demo_defs)
  have p2: "findOne (ownedLive (m_imageId toPersonal) (ra_id (m_application toPersonal))) (images demoDb) = Some 0"
    by (simp add: eval_defs demo_defs)
  have p3: "status (fst (updateImageMetadata demoEnv (images demoDb) toPersonal)) = 200"
    by (simp add: eval_defs demo_defs)
  have p4: "findOne (ownedLive (rp_imageId sofaReplace) (ra_id (rp_application sofaReplace))) (images demoDb) = Some 0"
    by (simp add: eval_defs demo_defs sofaReplace_def)
  have p5: "status (fst (replaceImage demoEnv (images demoDb) sofaReplace)) = 200"
    by (simp add: eval_defs demo_defs sofaReplace_def)
  have p6: "saveAt (clock demoEnv) 1 (recordAccess (clock demoEnv) diaryImage) (images demoDb)
       = Some ((recordAccess (clock demoEnv) diaryImage)\<lparr>updatedAt := clock demoEnv\<rparr>,
               [sofaImage, (recordAccess (clock demoEnv) diaryImage)\<lparr>updatedAt := clock demoEnv\<rparr>])"
    by (simp add: eval_defs demo_defs recordAccess_def)
  have p7: "saveNew (clock demoEnv) diaryImage [sofaImage]
       = Some (diaryImage\<lparr>createdAt := clock demoEnv, updatedAt := clock demoEnv\<rparr>,
               [sofaImage, diaryImage\<lparr>createdAt := clock demoEnv, updatedAt := clock demoEnv\<rparr>])"
    by (simp add: eval_defs demo_defs)
  from visibility_after_save [where e = demoEnv and s = demoDb and r = productUpload
      and mr = toPersonal and ds = "images demoDb" and k = 0 and ?e1.0 = demoEnv
      and rr = sofaReplace and ?ds2.0 = "images demoDb" and j = 0 and ?e2.0 = demoEnv
      and now = "clock demoEnv" and i = 1 and doc = "recordAccess (clock demoEnv) diaryImage"
      and docs = "images demoDb"
      and w = "(recordAccess (clock demoEnv) diaryImage)\<lparr>updatedAt := clock demoEnv\<rparr>"
      and docs' = "[sofaImage, (recordAccess (clock demoEnv) diaryImage)\<lparr>updatedAt := clock demoEnv\<rparr>]"
      and ?now2.0 = "clock demoEnv" and ?doc2.0 = diaryImage and ?docs2.0 = "[sofaImage]"
      and ?w2.0 = "diaryImage\<lparr>createdAt := clock demoEnv, updatedAt := clock demoEnv\<rparr>"
      and docs2' = "[sofaImage, diaryImage\<lparr>createdAt := clock demoEnv, updatedAt := clock demoEnv\<rparr>]"]
    p1 p2 p3 p4 p5 p6 p7
  show ?thesis by simp
qed

text \<open>
  C3, as stated, fails after a metadata update: the public product image of \<^verbatim>\<open>acme\<close>,
  moved to the category \<^verbatim>\<open>personal\<close>, has no product entity type, category or
  product id after the save, and is still public.
\<close>

theorem public_flag_counterexample:
  "status (fst (updateImageMetadata demoEnv (images demoDb) toPersonal)) = 200
   \<and> category (snd (updateImageMetadata demoEnv (images demoDb) toPersonal) ! 0) = ''personal''
   \<and> isPublic (snd (updateImageMetadata demoEnv (images demoDb) toPersonal) ! 0)
   \<and> \<not> publicByRule (snd (updateImageMetadata demoEnv (images demoDb) toPersonal) ! 0)"
  by (simp add: updateImageMetadata_def ownedLive_def
      applyMetadata_def saveAt_def validateImage_def mimetypeEnum_def preSave_def
      publicByRule_def truthy_def Let_def demo_defs)

section \<open>Properties of sequences of requests\<close>

text \<open>
  C9. The public flag of an asset is monotone: a stored document that is public stays at
  its position, keeps its id and is public after any sequence of requests to the image
  controller (uploads, bulk uploads, reads with their access recording, listings, metadata
  updates, replacements and deletions).
\<close>

theorem public_flag_monotone:
  assumes "k < length (images s)" and "isPublic (images s ! k)"
  shows "k < length (images (run s ops))
         \<and> imageId (images (run s ops) ! k) = imageId (images s ! k)
         \<and> isPublic (images (run s ops) ! k)"
  using run_evolves [of s ops] assms by (simp add: evolves_def)

theorem public_flag_monotone_witness:
  "0 < length (images demoDb) \<and> isPublic (images demoDb ! 0)
   \<and> category (images (run demoDb [(demoEnv, OpUpdate toPersonal), (demoEnv, OpReplace sofaReplace)]) ! 0)
       = ''personal''
   \<and> isPublic (images (run demoDb [(demoEnv, OpUpdate toPersonal), (demoEnv, OpReplace sofaReplace)]) ! 0)"
proof -
  have h1: "0 < length (images demoDb)" by (simp add: demo_defs)
  have h2: "isPublic (images demoDb ! 0)" by (simp add: demo_defs)
  have c: "category (images (run demoDb [(demoEnv, OpUpdate toPersonal), (demoEnv, OpReplace sofaReplace)]) ! 0)
       = ''personal''"
    by (simp add: run_def eval_defs demo_defs)
  from public_flag_monotone [OF h1 h2, of "[(demoEnv, OpUpdate toPersonal), (demoEnv, OpReplace sofaReplace)]"]
    h1 h2 c
  show ?thesis by simp
qed

lemma tombstoned_findOne: "tombstoned i docs \<Longrightarrow> findOne (liveWithId i) docs = None"
  by (auto simp add: tombstoned_def findOne_None liveWithId_def)

lemma distinct_tombstoned:
  assumes "distinct (map imageId docs)" "k < length docs" "isDeleted (docs ! k)"
  shows "tombstoned (imageId (docs ! k)) docs"
  unfolding tombstoned_def
proof (intro conjI ballI impI)
  show "imageId (docs ! k) \<in> imageId ` set docs" using assms(2) by simp
next
  fix d assume "d \<in> set docs" and same: "imageId d = imageId (docs ! k)"
  then obtain j where j: "j < length docs" "docs ! j = d" by (auto simp add: in_set_conv_nth)
  have "map imageId docs ! j = map imageId docs ! k" using j assms(2) same by simp
  moreover have "j < length (map imageId docs)" "k < length (map imageId docs)"
    using j(1) assms(2) by simp_all
  ultimately have "j = k" using assms(1) nth_eq_iff_index_eq by blast
  then show "isDeleted d" using j assms(3) by simp
qed

lemma set_sortImages: "set (sortImages e srt docs) = set docs"
  by (simp add: sortImages_def)

lemma listImages_live:
  assumes "listImages e docs lr = Success n data" "x \<in> set (ld_images data)"
  shows "\<exists>d \<in> set docs. \<not> isDeleted d \<and> imageId d = li_imageId x"
proof -
  let ?shown = "take (min (intOr (ls_limit lr) 20) 100)
      (drop ((intOr (ls_page lr) 1 - 1) * min (intOr (ls_limit lr) 20) 100)
        (sortImages e (ls_sort lr) (filter (listQuery e lr) docs)))"
  from assms obtain d where d: "d \<in> set ?shown" "li_imageId x = imageId d"
    by (auto simp add: listImages_def Let_def split: if_splits)
  from d(1) have "d \<in> set (sortImages e (ls_sort lr) (filter (listQuery e lr) docs))"
    by (meson in_set_dropD in_set_takeD)
  then have "d \<in> set docs" "\<not> isDeleted d"
    by (simp_all add: set_sortImages listQuery_def)
  with d(2) show ?thesis by auto
qed

lemma listedIds_live:
  assumes "i \<in> set (listedIds (listImages e docs lr))"
  shows "\<exists>d \<in> set docs. \<not> isDeleted d \<and> imageId d = i"
proof (cases "listImages e docs lr")
  case (Success n data)
  with assms obtain x where "x \<in> set (ld_images data)" "li_imageId x = i" by auto
  with listImages_live [OF Success] show ?thesis by blast
qed (use assms in simp_all)

text \<open>
  C8. Take a catalogue whose ids are distinct (the unique index on \<^verbatim>\<open>imageId\<close>) and
  an asset in it that has been soft-deleted. After any further sequence of requests to the
  image controller, \<^verbatim>\<open>getImage\<close> and \<^verbatim>\<open>getImageInfo\<close> answer 404 to every
  request for that asset, whatever token or bearer identity the request carries, and no
  listing shows its id.
\<close>

theorem soft_deleted_unreadable:
  assumes uniq: "distinct (map imageId (images s))"
    and k: "k < length (images s)"
    and del: "isDeleted (images s ! k)"
    and r: "p_imageId r = imageId (images s ! k)"
  shows "fst (getImage e (images (run s ops)) r) = Failure 404 ''Image not found''
         \<and> fst (getImageInfo e (images (run s ops)) r) = Failure 404 ''Image not found''
         \<and> imageId (images s ! k) \<notin> set (listedIds (listImages e (images (run s ops)) lr))"
proof -
  have "tombstoned (imageId (images s ! k)) (images s)"
    using distinct_tombstoned [OF uniq k del] .
  then have t: "tombstoned (p_imageId r) (images (run s ops))"
    using tombstoned_evolves run_evolves r by metis
  then have none: "findOne (liveWithId (p_imageId r)) (images (run s ops)) = None"
    by (rule tombstoned_findOne)
  have "imageId (images s ! k) \<notin> set (listedIds (listImages e (images (run s ops)) lr))"
  proof
    assume "imageId (images s ! k) \<in> set (listedIds (listImages e (images (run s ops)) lr))"
    from listedIds_live [OF this] obtain d where
      "d \<in> set (images (run s ops))" "\<not> isDeleted d" "imageId d = imageId (images s ! k)" by blast
    with t r show False by (auto simp add: tombstoned_def)
  qed
  with none show ?thesis by (simp add: getImage_def getImageInfo_def)
qed

lemma deleteImage_200:
  assumes "status (fst (deleteImage e docs r)) = 200"
  shows "\<exists>k w. findOne (ownedLive (d_imageId r) (ra_id (d_application r))) docs = Some k
          \<and> saveAt (clock e) k (softDelete (clock e) (docs ! k)) docs = Some (w, snd (deleteImage e docs r))"
  using assms by (auto simp add: deleteImage_def split: option.splits)

text \<open>
  The soft delete: after a successful \<^verbatim>\<open>deleteImage\<close> the document of the asset
  carries the flag and the time of the call, and the ids are as distinct as before.
\<close>

lemma deleteImage_softDeletes:
  assumes ok: "status (fst (deleteImage e docs r)) = 200"
  shows "\<exists>k < length docs.
           imageId (snd (deleteImage e docs r) ! k) = d_imageId r
           \<and> isDeleted (snd (deleteImage e docs r) ! k)
           \<and> deletedAt (snd (deleteImage e docs r) ! k) = Some (clock e)
           \<and> map imageId (snd (deleteImage e docs r)) = map imageId docs"
proof -
  from deleteImage_200 [OF ok] obtain k w where
    f: "findOne (ownedLive (d_imageId r) (ra_id (d_application r))) docs = Some k"
    and sv: "saveAt (clock e) k (softDelete (clock e) (docs ! k)) docs = Some (w, snd (deleteImage e docs r))"
    by blast
  from findOne_Some [OF f] have k: "k < length docs" and o: "imageId (docs ! k) = d_imageId r"
    by (simp_all add: ownedLive_def)
  from saveAt_Some [OF sv] have d: "snd (deleteImage e docs r) = docs[k := w]"
    and w: "w = (preSave (softDelete (clock e) (docs ! k)))\<lparr>updatedAt := clock e\<rparr>" by simp_all
  have wi: "imageId w = imageId (docs ! k)" "isDeleted w" "deletedAt w = Some (clock e)"
    unfolding w by (simp_all add: preSave_def softDelete_def)
  have "map imageId (docs[k := w]) = (map imageId docs)[k := map imageId docs ! k]"
    using wi(1) k by (simp add: map_update)
  then have "map imageId (docs[k := w]) = map imageId docs"
    by (simp only: list_update_id)
  with k o wi d show ?thesis by auto
qed

theorem soft_deleted_unreadable_witness:
  "status (fst (deleteImage demoEnv (images demoDb) diaryDelete)) = 200
   \<and> distinct (map imageId (images (step demoDb (demoEnv, OpDelete diaryDelete))))
   \<and> 1 < length (images (step demoDb (demoEnv, OpDelete diaryDelete)))
   \<and> isDeleted (images (step demoDb (demoEnv, OpDelete diaryDelete)) ! 1)
   \<and> deletedAt (images (step demoDb (demoEnv, OpDelete diaryDelete)) ! 1) = Some (clock demoEnv)
   \<and> p_imageId ownerRead = imageId (images (step demoDb (demoEnv, OpDelete diaryDelete)) ! 1)
   \<and> map_option ra_id (r_application ownerRead) = Some (application diaryImage)
   \<and> fst (getImage demoEnv (images (run (step demoDb (demoEnv, OpDelete diaryDelete))
            [(demoEnv, OpUpload productUpload), (demoEnv, OpInfo ownerRead)])) ownerRead)
       = Failure 404 ''Image not found''
   \<and> fst (getImageInfo demoEnv (images (run (step demoDb (demoEnv, OpDelete diaryDelete))
            [(demoEnv, OpUpload productUpload), (demoEnv, OpInfo ownerRead)])) ownerRead)
       = Failure 404 ''Image not found''
   \<and> imageId diaryImage \<notin> set (listedIds (listImages demoEnv
          (images (run (step demoDb (demoEnv, OpDelete diaryDelete))
            [(demoEnv, OpUpload productUpload), (demoEnv, OpInfo ownerRead)])) acmeList))"
proof -
  have st: "status (fst (deleteImage demoEnv (images demoDb) diaryDelete)) = 200"
    by (simp add: deleteImage_def softDelete_def diaryDelete_def eval_defs demo_defs)
  have im: "images (step demoDb (demoEnv, OpDelete diaryDelete))
            = [sofaImage, diaryImage\<lparr>isDeleted := True, deletedAt := Some (clock demoEnv),
                                      updatedAt := clock demoEnv\<rparr>]"
    by (simp add: deleteImage_def softDelete_def diaryDelete_def eval_defs demo_defs)
  have h1: "distinct (map imageId (images (step demoDb (demoEnv, OpDelete diaryDelete))))"
    unfolding im by (simp add: demo_defs)
  have h2: "1 < length (images (step demoDb (demoEnv, OpDelete diaryDelete)))"
    unfolding im by simp
  have h3: "isDeleted (images (step demoDb (demoEnv, OpDelete diaryDelete)) ! 1)"
    unfolding im by simp
  have h3': "deletedAt (images (step demoDb (demoEnv, OpDelete diaryDelete)) ! 1) = Some (clock demoEnv)"
    unfolding im by simp
  have h4: "p_imageId ownerRead = imageId (images (step demoDb (demoEnv, OpDelete diaryDelete)) ! 1)"
    unfolding im by (simp add: ownerRead_def readRequest_fields)
  have h5: "map_option ra_id (r_application ownerRead) = Some (application diaryImage)"
    by (simp add: ownerRead_def readRequest_def optionalApplicationAuth_def jwt_verify_def demo_defs)
  have id: "imageId (images (step demoDb (demoEnv, OpDelete diaryDelete)) ! 1) = imageId diaryImage"
    unfolding im by simp
  from soft_deleted_unreadable [OF h1 h2 h3 h4, of demoEnv
      "[(demoEnv, OpUpload productUpload), (demoEnv, OpInfo ownerRead)]" acmeList]
    st h1 h2 h3 h3' h4 h5 id
  show ?thesis by simp
qed

section \<open>Properties of the ingestion pipeline\<close>

lemma tryGenerateVariants_local:
  assumes "STORAGE_TYPE e \<noteq> Some ''s3''" "f_path f = Some p" "generateImageVariants e p i = Inl err"
  shows "tryGenerateVariants e f i = ([], True)"
  using assms by (simp add: tryGenerateVariants_def)

lemma tryGenerateVariants_s3:
  assumes "STORAGE_TYPE e = Some ''s3''" "f_s3 f = Some k" "generateS3ImageVariants e (s3_key k) i = Inl err"
  shows "tryGenerateVariants e f i = ([], True)"
  using assms by (simp add: tryGenerateVariants_def)

lemma canUpload_recordUpload_usage:
  "totalImages (usage (recordUpload (snd (canUpload now a n)) m)) = totalImages (usage a) + 1"
  "totalStorageUsed (usage (recordUpload (snd (canUpload now a n)) m)) = totalStorageUsed (usage a) + m"
  by (simp_all add: recordUpload_def canUpload_def Let_def resetMonthlyUsage_totals)

lemma uploadDocument_fields:
  "imageId (uploadDocument e r f i vs sf) = i"
  "variants (uploadDocument e r f i vs sf) = vs"
  "application (uploadDocument e r f i vs sf) = ra_id (u_application r)"
  "originalName (uploadDocument e r f i vs sf) = f_originalname f"
  "filename (uploadDocument e r f i vs sf) = f_filename f"
  "mimetype (uploadDocument e r f i vs sf) = f_mimetype f"
  "path (uploadDocument e r f i vs sf) = fst sf"
  "isDeleted (uploadDocument e r f i vs sf) = False"
  by (simp_all add: uploadDocument_def split: prod.splits)

lemma preSave_variants: "variants (preSave d) = variants d"
  by (simp add: preSave_def)

text \<open>
  C6. Take a single upload that has a file, whose tenant exists and is admitted by
  \<^verbatim>\<open>canUpload\<close>, whose file fields passed the upload middleware (non-empty names, an
  allowed MIME type, a storage location) and whose fresh id is not in the catalogue. If
  variant generation throws, with local storage or with S3, the answer is still 201 with
  \<^verbatim>\<open>success: true\<close>: it carries an empty variant map and a token signed for the new
  id and the tenant; one document with an empty variant map is appended to the catalogue;
  and the tenant is written back with \<^verbatim>\<open>recordUpload\<close> applied, one more image and
  the file's bytes more storage.
\<close>

theorem upload_absorbs_variant_failure:
  assumes hasFile: "u_file r = Some f"
    and tenant: "findById (apps s) (ra_id (u_application r)) = Some app0"
    and admitted: "allowed (fst (canUpload (clock e) app0 (f_size f)))"
    and thrown: "(STORAGE_TYPE e \<noteq> Some ''s3''
                   \<and> (\<exists>p err. f_path f = Some p \<and> generateImageVariants e p (uuidv4 e 0) = Inl err))
                 \<or> (STORAGE_TYPE e = Some ''s3''
                   \<and> (\<exists>k err. f_s3 f = Some k \<and> generateS3ImageVariants e (s3_key k) (uuidv4 e 0) = Inl err))"
    and valid: "f_originalname f \<noteq> []" "f_filename f \<noteq> []" "f_mimetype f \<in> set mimetypeEnum"
    and stored: "storageFields e f = Some (pth, key, loc)" "pth \<noteq> []"
    and fresh: "uuidv4 e 0 \<noteq> []" "uuidv4 e 0 \<notin> imageId ` set (images s)"
  shows "(\<exists>data. fst (uploadImage e s r) = Success 201 data
            \<and> ud_imageId data = uuidv4 e 0
            \<and> ud_variants data = []
            \<and> ud_accessToken data = jwt_sign (JWT_SECRET e) (clock e)
                 (imageClaims (uuidv4 e 0) (ra_id (u_application r))) 3600)
         \<and> images (snd (uploadImage e s r)) = images s @ [last (images (snd (uploadImage e s r)))]
         \<and> imageId (last (images (snd (uploadImage e s r)))) = uuidv4 e 0
         \<and> application (last (images (snd (uploadImage e s r)))) = ra_id (u_application r)
         \<and> variants (last (images (snd (uploadImage e s r)))) = []
         \<and> isDeleted (last (images (snd (uploadImage e s r)))) = False
         \<and> apps (snd (uploadImage e s r)) (ra_id (u_application r))
             = Some (recordUpload (snd (canUpload (clock e) app0 (f_size f))) (f_size f))
         \<and> totalImages (usage (recordUpload (snd (canUpload (clock e) app0 (f_size f))) (f_size f)))
             = totalImages (usage app0) + 1
         \<and> totalStorageUsed (usage (recordUpload (snd (canUpload (clock e) app0 (f_size f))) (f_size f)))
             = totalStorageUsed (usage app0) + f_size f"
proof -
  let ?doc = "uploadDocument e r f (uuidv4 e 0) [] (pth, key, loc)"
  let ?img = "(preSave ?doc)\<lparr>createdAt := clock e, updatedAt := clock e\<rparr>"
  from thrown have tg: "tryGenerateVariants e f (uuidv4 e 0) = ([], True)"
    using tryGenerateVariants_local tryGenerateVariants_s3 by blast
  have v: "validateImage ?doc"
    using valid stored(2) fresh(1) by (simp add: validateImage_def uploadDocument_fields)
  have sv: "saveNew (clock e) ?doc (images s) = Some (?img, images s @ [?img])"
    using v fresh(2) by (simp add: saveNew_def Let_def uploadDocument_fields)
  obtain cu app1 where cu: "canUpload (clock e) app0 (f_size f) = (cu, app1)"
    by (cases "canUpload (clock e) app0 (f_size f)")
  with admitted have al: "allowed cu" by simp
  have up: "uploadImage e s r =
      (Success 201 (uploadAnswer ?img [] (jwt_sign (JWT_SECRET e) (clock e)
                      (imageClaims (imageId ?img) (ra_id (u_application r))) 3600)),
       s\<lparr>images := images s @ [?img],
         apps := (apps s)(ra_id (u_application r) \<mapsto> recordUpload app1 (f_size f))\<rparr>)"
    using hasFile tenant cu al tg stored(1) sv by (simp add: uploadImage_def)
  have i: "imageId ?img = uuidv4 e 0" "variants ?img = []"
    "application ?img = ra_id (u_application r)" "isDeleted ?img = False"
    by (simp_all add: preSave_keeps preSave_variants uploadDocument_fields)
  show ?thesis
    unfolding up using i cu
    by (simp add: uploadAnswer_def canUpload_recordUpload_usage [of "clock e" app0 "f_size f", unfolded cu, simplified])
qed

theorem upload_absorbs_variant_failure_witness:
  "u_file productUpload = Some chairFile
   \<and> findById (apps demoDb) (ra_id (u_application productUpload)) = Some acme
   \<and> allowed (fst (canUpload (clock demoEnv) acme (f_size chairFile)))
   \<and> STORAGE_TYPE demoEnv \<noteq> Some ''s3''
   \<and> f_path chairFile = Some ''uploads/c3_chair.jpg''
   \<and> generateImageVariants demoEnv ''uploads/c3_chair.jpg'' (uuidv4 demoEnv 0) = Inl ''sharp: processing failed''
   \<and> storageFields demoEnv chairFile = Some (''uploads/c3_chair.jpg'', None, None)
   \<and> uuidv4 demoEnv 0 \<notin> imageId ` set (images demoDb)
   \<and> (\<exists>data. fst (uploadImage demoEnv demoDb productUpload) = Success 201 data
          \<and> ud_imageId data = uuidv4 demoEnv 0
          \<and> ud_variants data = []
          \<and> ud_accessToken data = jwt_sign (JWT_SECRET demoEnv) (clock demoEnv)
               (imageClaims (uuidv4 demoEnv 0) (ra_id (u_application productUpload))) 3600)
   \<and> length (images (snd (uploadImage demoEnv demoDb productUpload))) = 3
   \<and> variants (last (images (snd (uploadImage demoEnv demoDb productUpload)))) = []
   \<and> map_option (\<lambda>a. totalImages (usage a))
        (apps (snd (uploadImage demoEnv demoDb productUpload)) (ra_id (u_application productUpload)))
       = Some 1
   \<and> map_option (\<lambda>a. totalStorageUsed (usage a))
        (apps (snd (uploadImage demoEnv demoDb productUpload)) (ra_id (u_application productUpload)))
       = Some 1048576"
proof -
  have h1: "u_file productUpload = Some chairFile" by (simp add: demo_defs)
  have h2: "findById (apps demoDb) (ra_id (u_application productUpload)) = Some acme"
    by (simp add: findById_def demo_defs)
  have h3: "allowed (fst (canUpload (clock demoEnv) acme (f_size chairFile)))"
    by (simp add: eval_defs demo_defs)
  have h4: "STORAGE_TYPE demoEnv \<noteq> Some ''s3''" by (simp add: demo_defs)
  have h5: "f_path chairFile = Some ''uploads/c3_chair.jpg''" by (simp add: demo_defs)
  have h6: "generateImageVariants demoEnv ''uploads/c3_chair.jpg'' (uuidv4 demoEnv 0) = Inl ''sharp: processing failed''"
    by (simp add: eval_defs demo_defs)
  have h7: "storageFields demoEnv chairFile = Some (''uploads/c3_chair.jpg'', None, None)"
    by (simp add: eval_defs demo_defs)
  have h8: "uuidv4 demoEnv 0 \<notin> imageId ` set (images demoDb)" by (simp add: demo_defs)
  have h9: "uuidv4 demoEnv 0 \<noteq> []" by (simp add: demo_defs)
  have v: "f_originalname chairFile \<noteq> []" "f_filename chairFile \<noteq> []"
    "f_mimetype chairFile \<in> set mimetypeEnum" "''uploads/c3_chair.jpg'' \<noteq> []"
    by (simp_all add: mimetypeEnum_def demo_defs)
  have thrown: "(STORAGE_TYPE demoEnv \<noteq> Some ''s3''
                   \<and> (\<exists>p err. f_path chairFile = Some p
                         \<and> generateImageVariants demoEnv p (uuidv4 demoEnv 0) = Inl err))
                 \<or> (STORAGE_TYPE demoEnv = Some ''s3''
                   \<and> (\<exists>k err. f_s3 chairFile = Some k
                         \<and> generateS3ImageVariants demoEnv (s3_key k) (uuidv4 demoEnv 0) = Inl err))"
    using h4 h5 h6 by blast
  have u0: "totalImages (usage acme) = 0" "totalStorageUsed (usage acme) = 0" "f_size chairFile = 1048576"
    "length (images demoDb) = 2"
    by (simp_all add: demo_defs defaultUsage_def)
  note main = upload_absorbs_variant_failure [OF h1 h2 h3 thrown v(1) v(2) v(3) h7 v(4) h9 h8]
  from main have "images (snd (uploadImage demoEnv demoDb productUpload)) =
      images demoDb @ [last (images (snd (uploadImage demoEnv demoDb productUpload)))]"
    by blast
  then have "length (images (snd (uploadImage demoEnv demoDb productUpload))) =
      length (images demoDb @ [last (images (snd (uploadImage demoEnv demoDb productUpload)))])"
    by (rule arg_cong)
  then have len: "length (images (snd (uploadImage demoEnv demoDb productUpload))) = 3"
    using u0(4) by simp
  from main h1 h2 h3 h4 h5 h6 h7 h8 u0(1,2,3) len
  show ?thesis by simp
qed

section \<open>Properties of the tenant credentials\<close>

lemma toJSON_keys: "fst ` set (toJSON a) \<subseteq> {''_id'', ''name'', ''description'', ''domain'',
   ''allowedOrigins'', ''apiKey'', ''isActive'', ''plan'', ''limits'', ''usage'', ''settings'',
   ''createdAt'', ''updatedAt''}"
  by (auto simp add: toJSON_def toObject_def deleteKey_def optional_def split: option.splits)

lemma toJSON_blind:
  "toJSON (a\<lparr>apiSecret := x, refreshTokens := y, plainSecret := z\<rparr>) = toJSON a"
  by (simp add: toJSON_def toObject_def deleteKey_def optional_def split: option.splits)

text \<open>
  C10. The JSON serialization of a tenant document has no \<^verbatim>\<open>apiSecret\<close>, no
  \<^verbatim>\<open>refreshTokens\<close> and no \<^verbatim>\<open>_plainSecret\<close> property, and it does not depend on
  the values of these three at all. The save of a new document stores the bcrypt hash of
  the generated secret in \<^verbatim>\<open>apiSecret\<close> and keeps the plaintext in the transient
  \<^verbatim>\<open>_plainSecret\<close> only; a later save leaves both as they are; a document loaded from
  the store has its stored \<^verbatim>\<open>apiSecret\<close> and no \<^verbatim>\<open>_plainSecret\<close>; and the ledger
  methods do not touch \<^verbatim>\<open>apiSecret\<close>.
\<close>

theorem secret_never_serialized:
  "map_of (toJSON a) ''apiSecret'' = None
   \<and> map_of (toJSON a) ''refreshTokens'' = None
   \<and> map_of (toJSON a) ''_plainSecret'' = None
   \<and> toJSON (a\<lparr>apiSecret := x, refreshTokens := y, plainSecret := z\<rparr>) = toJSON a
   \<and> (isNew a \<longrightarrow>
        apiSecret (applicationPreSave hash rnd a) = Some (hash (rnd_secret rnd) (rnd_salt rnd))
        \<and> plainSecret (applicationPreSave hash rnd a) = Some (rnd_secret rnd))
   \<and> (\<not> isNew a \<longrightarrow> applicationPreSave hash rnd a = a)
   \<and> (findById m i = Some b \<longrightarrow>
        plainSecret b = None \<and> \<not> isNew b \<and> applicationPreSave hash rnd b = b
        \<and> map_option apiSecret (m i) = Some (apiSecret b))
   \<and> apiSecret (recordUpload a n) = apiSecret a
   \<and> apiSecret (snd (canUpload now a n)) = apiSecret a
   \<and> apiSecret (resetMonthlyUsage now a) = apiSecret a"
proof -
  have k: "''apiSecret'' \<notin> fst ` set (toJSON a)" "''refreshTokens'' \<notin> fst ` set (toJSON a)"
    "''_plainSecret'' \<notin> fst ` set (toJSON a)"
    using toJSON_keys [of a] by auto
  have r: "apiSecret (resetMonthlyUsage now a) = apiSecret a"
    by (simp add: resetMonthlyUsage_def Let_def)
  have "findById m i = Some b \<longrightarrow>
        plainSecret b = None \<and> \<not> isNew b \<and> applicationPreSave hash rnd b = b
        \<and> map_option apiSecret (m i) = Some (apiSecret b)"
    by (auto simp add: findById_def applicationPreSave_def)
  then show ?thesis
    using k r
    by (simp add: map_of_eq_None_iff toJSON_blind applicationPreSave_def recordUpload_def
        canUpload_def Let_def)
qed

theorem secret_never_serialized_witness:
  "isNew (newApplication 1 ''acme'' ''acme.example'' (Date 2024 0 1704067200000))
   \<and> apiSecret (applicationPreSave demoHash demoRandom
         (newApplication 1 ''acme'' ''acme.example'' (Date 2024 0 1704067200000)))
       = Some (demoHash (rnd_secret demoRandom) (rnd_salt demoRandom))
   \<and> plainSecret (applicationPreSave demoHash demoRandom
         (newApplication 1 ''acme'' ''acme.example'' (Date 2024 0 1704067200000)))
       = Some (rnd_secret demoRandom)
   \<and> map_of (toJSON (applicationPreSave demoHash demoRandom
         (newApplication 1 ''acme'' ''acme.example'' (Date 2024 0 1704067200000)))) ''apiSecret'' = None
   \<and> \<not> isNew acme
   \<and> apiSecret acme = Some (demoHash (rnd_secret demoRandom) (rnd_salt demoRandom))
   \<and> applicationPreSave demoHash demoRandom acme = acme
   \<and> findById (apps demoDb) 1 = Some acme
   \<and> plainSecret acme = None
   \<and> map_of (toJSON acme) ''apiSecret'' = None
   \<and> map_of (toJSON acme) ''refreshTokens'' = None"
proof -
  have h1: "isNew (newApplication 1 ''acme'' ''acme.example'' (Date 2024 0 1704067200000))"
    by (simp add: newApplication_def)
  have h2: "\<not> isNew acme" by (simp add: acme_def)
  have h3: "findById (apps demoDb) 1 = Some acme"
    by (simp add: findById_def demoDb_def acme_def)
  have h4: "apiSecret acme = Some (demoHash (rnd_secret demoRandom) (rnd_salt demoRandom))"
    by (simp add: acme_def applicationPreSave_def newApplication_def)
  from secret_never_serialized [of
      "applicationPreSave demoHash demoRandom
         (newApplication 1 ''acme'' ''acme.example'' (Date 2024 0 1704067200000))"]
    secret_never_serialized [where hash = demoHash and rnd = demoRandom
      and a = "newApplication 1 ''acme'' ''acme.example'' (Date 2024 0 1704067200000)"]
    secret_never_serialized [where hash = demoHash and rnd = demoRandom and a = acme
      and m = "apps demoDb" and i = 1 and b = acme]
    h1 h2 h3 h4
  show ?thesis by simp
qed


end
